theory Spec2Isabelle
  imports Complex_Main "HOL-Library.AList" "HOL-Library.Sublist" "HOL-Library.Word"
begin

section \<open>JavaScript values used by the renderer front end\<close>

text \<open>
  A JavaScript number is a finite value, one of the two infinities, or NaN. Finite doubles
  are embedded in the rationals; comparisons, \<open>Math.abs\<close>, \<open>Math.max\<close>, \<open>Math.round\<close> and
  \<open>Number.isFinite\<close> are exact on doubles and are defined here. The operations that round
  their result (\<open>-\<close>, \<open>*\<close>, \<open>/\<close>) belong to the engine and are taken as parameters
  (record \<open>arith\<close> below).
\<close>

datatype num = Fin rat | PosInf | NegInf | NaN

fun isFinite :: "num \<Rightarrow> bool" where
  "isFinite (Fin q) = True"
| "isFinite PosInf = False"
| "isFinite NegInf = False"
| "isFinite NaN = False"

fun js_abs :: "num \<Rightarrow> num" where
  "js_abs (Fin q) = Fin \<bar>q\<bar>"
| "js_abs PosInf = PosInf"
| "js_abs NegInf = PosInf"
| "js_abs NaN = NaN"

text \<open>\<open>a < b\<close> and \<open>a > b\<close> of JavaScript: false as soon as one side is NaN.\<close>

fun js_lt :: "num \<Rightarrow> num \<Rightarrow> bool" where
  "js_lt NaN b = False"
| "js_lt a NaN = False"
| "js_lt (Fin p) (Fin q) = (p < q)"
| "js_lt (Fin p) PosInf = True"
| "js_lt (Fin p) NegInf = False"
| "js_lt PosInf b = False"
| "js_lt NegInf (Fin q) = True"
| "js_lt NegInf PosInf = True"
| "js_lt NegInf NegInf = False"

definition js_gt :: "num \<Rightarrow> num \<Rightarrow> bool" where
  "js_gt a b = js_lt b a"

text \<open>Strict equality \<open>a === b\<close> on numbers: NaN differs from everything, itself included.\<close>

definition js_eq :: "num \<Rightarrow> num \<Rightarrow> bool" where
  "js_eq a b = (a \<noteq> NaN \<and> b \<noteq> NaN \<and> a = b)"

text \<open>Truthiness of a number: \<open>0\<close> and NaN are falsy.\<close>

definition truthy_num :: "num \<Rightarrow> bool" where
  "truthy_num a = (a \<noteq> NaN \<and> a \<noteq> Fin 0)"

text \<open>\<open>Math.max(a, b)\<close>: NaN when one argument is NaN, the larger one otherwise.\<close>

definition js_max :: "num \<Rightarrow> num \<Rightarrow> num" where
  "js_max a b = (if a = NaN \<or> b = NaN then NaN else if js_lt a b then b else a)"

text \<open>\<open>Math.round(a)\<close>: the integer nearest to \<open>a\<close>, ties towards \<open>+\<infinity>\<close>.\<close>

fun js_round :: "num \<Rightarrow> num" where
  "js_round (Fin q) = Fin (of_int \<lfloor>q + 1 / 2\<rfloor>)"
| "js_round a = a"

text \<open>
  The rounding operations of the engine (IEEE-754 binary64). \<open>exact_arith\<close> is the
  instance without rounding; it agrees with the engine wherever the exact result is a
  double.
\<close>

record arith =
  fl_sub :: "num \<Rightarrow> num \<Rightarrow> num"
  fl_mul :: "num \<Rightarrow> num \<Rightarrow> num"
  fl_div :: "num \<Rightarrow> num \<Rightarrow> num"

fun exact_sub :: "num \<Rightarrow> num \<Rightarrow> num" where
  "exact_sub (Fin p) (Fin q) = Fin (p - q)"
| "exact_sub NaN b = NaN"
| "exact_sub a NaN = NaN"
| "exact_sub PosInf PosInf = NaN"
| "exact_sub NegInf NegInf = NaN"
| "exact_sub PosInf b = PosInf"
| "exact_sub NegInf b = NegInf"
| "exact_sub (Fin p) PosInf = NegInf"
| "exact_sub (Fin p) NegInf = PosInf"

fun exact_mul :: "num \<Rightarrow> num \<Rightarrow> num" where
  "exact_mul (Fin p) (Fin q) = Fin (p * q)"
| "exact_mul NaN b = NaN"
| "exact_mul a NaN = NaN"
| "exact_mul a b =
     (if a = Fin 0 \<or> b = Fin 0 then NaN
      else if js_lt a (Fin 0) = js_lt b (Fin 0) then PosInf else NegInf)"

fun exact_div :: "num \<Rightarrow> num \<Rightarrow> num" where
  "exact_div NaN b = NaN"
| "exact_div a NaN = NaN"
| "exact_div (Fin p) (Fin q) =
     (if q = 0 then (if p = 0 then NaN else if 0 < p then PosInf else NegInf)
      else Fin (p / q))"
| "exact_div (Fin p) b = Fin 0"
| "exact_div a (Fin q) = (if (a = PosInf) = (0 \<le> q) then PosInf else NegInf)"
| "exact_div a b = NaN"

definition exact_arith :: arith where
  "exact_arith = \<lparr>fl_sub = exact_sub, fl_mul = exact_mul, fl_div = exact_div\<rparr>"

text \<open>Truthiness of an optional string: \<open>undefined\<close> and \<open>''\<close> are falsy.\<close>

fun truthy_str :: "string option \<Rightarrow> bool" where
  "truthy_str None = False"
| "truthy_str (Some s) = (s \<noteq> [])"

text \<open>\<open>n.toString()\<close> for an array index: its decimal digits.\<close>

definition digit_char :: "nat \<Rightarrow> char" where
  "digit_char d = char_of (48 + d)"

function toString_nat :: "nat \<Rightarrow> string" where
  "toString_nat n =
     (if n < 10 then [digit_char n] else toString_nat (n div 10) @ [digit_char (n mod 10)])"
  by pat_completeness auto
termination
  by (relation "measure (\<lambda>n. n)") auto

declare toString_nat.simps [simp del]

section \<open>Errors\<close>

text \<open>
  Every failure of the code is \<open>throw new Error(msg)\<close>, a rejected promise or a runtime
  \<open>TypeError\<close>. One constructor stands for each message; the interpolated values are kept
  where the code interpolates them. Where \<open>render\<close> repeats a test of \<open>renderImage\<close>, its
  message differs in letter case or spacing only and shares the constructor.
\<close>

datatype error =
    StyleRequired                        \<comment> \<open>style is a required parameter\<close>
  | WidthHeightRequired                  \<comment> \<open>width and height are required parameters and must be non-zero\<close>
  | ErrorParsingJSONStyle                \<comment> \<open>Error parsing JSON style\<close>
  | CenterNotLonLat "num list"           \<comment> \<open>Center must be longitude,latitude. Invalid value found: ...\<close>
  | CenterLongitudeOutside num           \<comment> \<open>Center longitude is outside world bounds (-180 to 180 deg): ...\<close>
  | CenterLatitudeOutside num            \<comment> \<open>Center latitude is outside world bounds (-90 to 90 deg): ...\<close>
  | ZoomOutside num                      \<comment> \<open>Zoom level is outside supported range (0-22): ...\<close>
  | RatioOutside num                     \<comment> \<open>Ratio is outside supported range (>=1): ...\<close>
  | BoundsNotWSEN "num list"             \<comment> \<open>Bounds must be west,south,east,north. Invalid value found: ...\<close>
  | BoundsWestEastSame                   \<comment> \<open>Bounds west and east coordinate are the same value\<close>
  | BoundsSouthNorthSame                 \<comment> \<open>Bounds south and north coordinate are the same value\<close>
  | PaddingWidth                         \<comment> \<open>Padding must be less than width / 2\<close>
  | PaddingHeight                        \<comment> \<open>Padding must be less than height / 2\<close>
  | BearingOutside num                   \<comment> \<open>Bearing is outside supported range (0-360): ...\<close>
  | PitchOutside num                     \<comment> \<open>Pitch is outside supported range (0-60): ...\<close>
  | CenterZoomOrBoundsRequired           \<comment> \<open>Either center and zoom OR bounds must be provided\<close>
  | InvalidImageObject                   \<comment> \<open>Invalid image object; a url is required for each image\<close>
  | InvalidImageURL string               \<comment> \<open>Invalid image URL: ...\<close>
  | InvalidImportObject                  \<comment> \<open>Invalid import object; a url and a id is required for each import\<close>
  | InvalidImportURL string              \<comment> \<open>Invalid import URL: ...\<close>
  | ImportFetchFailed string             \<comment> \<open>Could not fetch import style from ...\<close>
  | TypeError                            \<comment> \<open>runtime TypeError (property of undefined, undefined not iterable, bad argument)\<close>
  | LocalMbtilesNotSupported             \<comment> \<open>Local mbtiles not supported!\<close>
  | InvalidUrlForImage string            \<comment> \<open>Invalid url for image: ...\<close>
  | ErrorLoadingIconImage string error   \<comment> \<open>Error loading icon image: id, followed by the cause\<close>
  | ImageDecodeFailed                    \<comment> \<open>the image decoder or \<open>map.addImage\<close> rejected\<close>
  | RendererFailed                       \<comment> \<open>the error the external renderer passed to the render callback\<close>
  | NetworkFailure                       \<comment> \<open>\<open>fetch\<close> rejected (connection error, timeout, body read)\<close>
  | RemoteTileFailed string nat          \<comment> \<open>request for remote tile failed: url (status: ...)\<close>
  | RemoteAssetFailed string nat         \<comment> \<open>Request for remote asset failed: url (Status: ...)\<close>
  | MapboxNotSupported                   \<comment> \<open>Mapbox not supported!\<close>
  | ResourceRequestFailed string error   \<comment> \<open>Error while making resource request to: url, followed by the cause\<close>
  | RequestKindNotHandled nat            \<comment> \<open>error Request kind not handled: ...\<close>
  | ErrorProcessingRenderRequest error   \<comment> \<open>Error processing render request: followed by the cause\<close>

section \<open>Style documents and the merge of imported styles\<close>

text \<open>
  A layer is its \<open>source\<close> property and the rest of its properties (\<open>props\<close>), which the merge
  copies with the spread \<open>...layer\<close>. A style document carries the properties the merge reads
  and writes; each may be absent (\<open>None\<close> is \<open>undefined\<close>). An object with string keys is an
  association list in insertion order, and \<open>obj[k] = v\<close> is \<open>AList.update k v\<close>: it replaces
  the value of a key already there and appends a new key otherwise. (An engine lists keys
  that are array indices first; only \<open>JSON.stringify\<close>, a parameter below, could see that.)
\<close>

record 'a layer =
  source :: "string option"
  props :: 'a

record 'a style =
  sources :: "(string \<times> 'a) list option"
  layers :: "'a layer list option"
  fog :: "'a option"
  glyphs :: "string option"
  sprite :: "string option"

text \<open>An import after \<open>getRemoteStyleImport\<close> returned its style: \<open>{id, url, style}\<close>.\<close>

record 'a resolved =
  r_id :: string
  r_url :: string
  r_style :: "'a style"

text \<open>\<open>const importId = id || idx.toString()\<close>\<close>

definition importId :: "string \<Rightarrow> nat \<Rightarrow> string" where
  "importId i idx = (if i \<noteq> [] then i else toString_nat idx)"

text \<open>\<open>key === 'composite' ? importId : `${importId}-${key}`\<close>\<close>

definition rename :: "string \<Rightarrow> string \<Rightarrow> string" where
  "rename iid key = (if key = ''composite'' then iid else iid @ ''-'' @ key)"

text \<open>
  \<open>Object.keys(importedStyle.sources).forEach(...)\<close>: one assignment into
  \<open>correctedStyle.sources\<close> for each key; assigning into an absent \<open>sources\<close> is a TypeError.
\<close>

fun add_sources ::
  "string \<Rightarrow> (string \<times> 'a) list \<Rightarrow> (string \<times> 'a) list option \<Rightarrow> error + (string \<times> 'a) list option"
where
  "add_sources iid [] dst = Inr dst"
| "add_sources iid ((key, v) # rest) dst =
     (case dst of
        None \<Rightarrow> Inl TypeError
      | Some m \<Rightarrow> add_sources iid rest (Some (AList.update (rename iid key) v m)))"

text \<open>
  The \<open>source\<close> of an imported layer: \<open>!layer.source ? undefined : layer.source === 'composite'
  ? importId : `${importId}-${layer.source}`\<close>.
\<close>

definition rewrite_source :: "string \<Rightarrow> string option \<Rightarrow> string option" where
  "rewrite_source iid src =
     (case src of
        None \<Rightarrow> None
      | Some s \<Rightarrow>
          if s = [] then None
          else if s = ''composite'' then Some iid
          else Some (iid @ ''-'' @ s))"

definition rewrite_layer :: "string \<Rightarrow> 'a layer \<Rightarrow> 'a layer" where
  "rewrite_layer iid l = l\<lparr>source := rewrite_source iid (source l)\<rparr>"

text \<open>The body of \<open>importedStyles.forEach(({ id, style: importedStyle }, idx) => ...)\<close>.\<close>

definition merge_one :: "'a style \<Rightarrow> nat \<Rightarrow> 'a resolved \<Rightarrow> error + 'a style" where
  "merge_one correctedStyle idx imp =
     (let importedStyle = r_style imp; iid = importId (r_id imp) idx in
      case sources importedStyle of
        None \<Rightarrow> Inl TypeError
      | Some isrc \<Rightarrow>
     (case add_sources iid isrc (sources correctedStyle) of
        Inl e \<Rightarrow> Inl e
      | Inr srcs \<Rightarrow>
     (case layers importedStyle of
        None \<Rightarrow> Inl TypeError
      | Some ils \<Rightarrow>
     (case layers correctedStyle of
        None \<Rightarrow> Inl TypeError
      | Some bls \<Rightarrow>
        Inr (correctedStyle
          \<lparr> sources := srcs,
            layers := Some (map (rewrite_layer iid) ils @ bls),
            fog := (if fog importedStyle \<noteq> None \<and> fog correctedStyle = None
                    then fog importedStyle else fog correctedStyle),
            glyphs := (if glyphs importedStyle \<noteq> None \<and> \<not> truthy_str (glyphs correctedStyle)
                       then glyphs importedStyle else glyphs correctedStyle),
            sprite := (if sprite importedStyle \<noteq> None \<and> \<not> truthy_str (sprite correctedStyle)
                       then sprite importedStyle else sprite correctedStyle) \<rparr>)))))"

text \<open>The \<open>forEach\<close> over the imports, from index \<open>idx\<close> on; an exception ends it.\<close>

fun merge_from :: "nat \<Rightarrow> 'a style \<Rightarrow> 'a resolved list \<Rightarrow> error + 'a style" where
  "merge_from idx correctedStyle [] = Inr correctedStyle"
| "merge_from idx correctedStyle (imp # rest) =
     (case merge_one correctedStyle idx imp of
        Inl e \<Rightarrow> Inl e
      | Inr s \<Rightarrow> merge_from (Suc idx) s rest)"

definition merge_imports :: "'a style \<Rightarrow> 'a resolved list \<Rightarrow> error + 'a style" where
  "merge_imports correctedStyle importedStyles = merge_from 0 correctedStyle importedStyles"

section \<open>Request parameters and the surrounding world\<close>

text \<open>
  A parameter that the code accepts either as text or already decoded
  (\<open>typeof x === 'string'\<close>).
\<close>

datatype 'v raw = Str string | Val 'v

text \<open>An entry of \<open>images\<close>: \<open>{url, pixelRatio, sdf}\<close>; an entry of \<open>imports\<close>: \<open>{id, url}\<close>,
  where the empty string also stands for a missing property (both are falsy).\<close>

record image =
  url :: "string option"
  pixelRatio :: "num option"
  sdf :: "bool option"

record import_ref =
  imp_id :: string
  imp_url :: string

text \<open>
  The parameters of \<open>renderImage\<close>. \<open>None\<close> is an absent parameter. Width, height and
  padding arrive as integers (the \<open>isInt\<close> rule of the HTTP layer), on which
  \<open>parseInt(x, 10)\<close> is the identity.
\<close>

record 'a params =
  p_style :: "'a style raw option"
  p_width :: int
  p_height :: int
  p_center :: "num list raw option"
  p_zoom :: "num raw option"
  p_bounds :: "num list raw option"
  p_padding :: "int option"
  p_ratio :: "num option"
  p_bearing :: "num option"
  p_pitch :: "num option"
  p_token :: "string option"
  p_images :: "(string \<times> image) list option"
  p_imports :: "import_ref list option"

text \<open>
  The options object \<open>renderImage\<close> hands to \<open>render\<close>: every property is present, \<open>None\<close>
  is \<open>null\<close>, so the defaults of the destructuring in \<open>render\<close> (which replace
  \<open>undefined\<close> only) do not apply.
\<close>

record options =
  o_zoom :: "num option"
  o_center :: "num list option"
  o_bounds :: "num list option"
  o_padding :: int
  o_tilePath :: "string option"
  o_ratio :: num
  o_bearing :: "num option"
  o_pitch :: "num option"
  o_token :: "string option"
  o_images :: "(string \<times> image) list option"
  o_imports :: "import_ref list option"

text \<open>The argument of \<open>map.render\<close> together with the style loaded into the map.\<close>

record 'a render_call =
  rc_style :: "'a style"
  rc_zoom :: "num option"
  rc_center :: "num list option"
  rc_height :: int
  rc_width :: int
  rc_bearing :: "num option"
  rc_pitch :: "num option"

text \<open>What \<open>toPNG\<close> hands to the PNG encoder: the raw RGBA bytes and their dimensions.\<close>

record raw_image =
  raw_data :: "8 word list"
  raw_width :: num
  raw_height :: num

text \<open>An HTTP response as \<open>fetch\<close> resolves it; \<open>body = None\<close> when reading the body rejects.\<close>

record response =
  status :: nat
  body :: "8 word list option"
  h_etag :: "string option"
  h_last_modified :: "string option"
  h_expires :: "string option"

text \<open>The \<open>RequestResponse\<close> given to the renderer; a date is kept as the header text it is
  constructed from.\<close>

record request_response =
  data :: "8 word list"
  modified :: "string option"
  expires :: "string option"
  etag :: "string option"

text \<open>
  Everything outside the repository that the code calls: the arithmetic of the engine, the
  built-ins \<open>Number\<close>, \<open>parseFloat\<close>, \<open>JSON.parse\<close>, \<open>new URL\<close> (\<open>URL_ok u\<close>: it does not
  throw on \<open>u\<close>) and \<open>JSON.stringify\<close>,
  \<open>geoViewport.viewport(bounds, dimensions, undefined, undefined, undefined, true)\<close> with
  its \<open>zoom\<close> and \<open>center\<close>, the network (\<open>fetch\<close>), base64 decoding, the image decoder
  with \<open>map.addImage\<close> (\<open>add_icon\<close>), \<open>map.render\<close> and the PNG encoder.
  \<open>getRemoteStyleImport\<close> stands for the outcome of fetching one import over the network
  and of its test for \<open>version === 8\<close>: the style it returns or the error it throws. Nothing
  below depends on how that outcome comes about.
\<close>

record 'a env =
  ar :: arith
  js_Number :: "string \<Rightarrow> num"
  js_parseFloat :: "string \<Rightarrow> num"
  JSON_parse :: "string \<Rightarrow> 'a style option"
  URL_ok :: "string \<Rightarrow> bool"
  JSON_stringify :: "'a style \<Rightarrow> string"
  viewport :: "num list \<Rightarrow> int \<times> int \<Rightarrow> num \<times> num list"
  fetch :: "string \<Rightarrow> error + response"
  getRemoteStyleImport :: "string \<Rightarrow> string option \<Rightarrow> error + 'a style"
  base64_decode :: "string \<Rightarrow> 8 word list"
  add_icon :: "string \<Rightarrow> 8 word list \<Rightarrow> num \<Rightarrow> bool \<Rightarrow> error option"
  map_render :: "'a render_call \<Rightarrow> error + 8 word list"
  png_encode :: "raw_image \<Rightarrow> error + 8 word list"

section \<open>Strings\<close>

text \<open>
  \<open>s.split(sep)\<close> with a string separator: the pieces between the occurrences of \<open>sep\<close>,
  found from left to right; the empty separator cuts between all characters.
\<close>

fun split_from :: "string \<Rightarrow> string \<Rightarrow> string \<Rightarrow> string list" where
  "split_from sep acc [] = [rev acc]"
| "split_from sep acc (c # cs) =
     (if sep \<noteq> [] \<and> prefix sep (c # cs)
      then rev acc # split_from sep [] (drop (length sep) (c # cs))
      else split_from sep (c # acc) cs)"

definition js_split :: "string \<Rightarrow> string \<Rightarrow> string list" where
  "js_split sep s = (if sep = [] then map (\<lambda>c. [c]) s else split_from sep [] s)"

text \<open>\<open>xs[i]\<close>: \<open>undefined\<close> outside the array.\<close>

definition at_index :: "'b list \<Rightarrow> nat \<Rightarrow> 'b option" where
  "at_index xs i = (if i < length xs then Some (xs ! i) else None)"

text \<open>\<open>text.split(',').map(Number)\<close>\<close>

definition parseListToFloat :: "'a env \<Rightarrow> string \<Rightarrow> num list" where
  "parseListToFloat E text = map (js_Number E) (js_split '','' text)"

section \<open>The validation of \<open>renderImage\<close>\<close>

text \<open>Each block of \<open>renderImage\<close> is one check; \<open>None\<close> means the block threw nothing.\<close>

definition decode_list :: "'a env \<Rightarrow> num list raw \<Rightarrow> num list" where
  "decode_list E r = (case r of Str text \<Rightarrow> parseListToFloat E text | Val xs \<Rightarrow> xs)"

text \<open>\<open>parseFloat(zoom)\<close>; on a number it returns the number.\<close>

definition decode_zoom :: "'a env \<Rightarrow> num raw \<Rightarrow> num" where
  "decode_zoom E r = (case r of Str text \<Rightarrow> js_parseFloat E text | Val z \<Rightarrow> z)"

definition decode_style :: "'a env \<Rightarrow> 'a style raw option \<Rightarrow> error + 'a style option" where
  "decode_style E r =
     (case r of
        None \<Rightarrow> Inr None
      | Some (Val st) \<Rightarrow> Inr (Some st)
      | Some (Str text) \<Rightarrow>
          (case JSON_parse E text of None \<Rightarrow> Inl ErrorParsingJSONStyle | Some st \<Rightarrow> Inr (Some st)))"

definition check_style :: "'a env \<Rightarrow> 'a style raw option \<Rightarrow> error option" where
  "check_style E r = (case decode_style E r of Inl e \<Rightarrow> Some e | Inr _ \<Rightarrow> None)"

definition check_center :: "num list option \<Rightarrow> error option" where
  "check_center c =
     (case c of
        None \<Rightarrow> None
      | Some center \<Rightarrow>
          if length center \<noteq> 2 then Some (CenterNotLonLat center)
          else if \<not> isFinite (center ! 0) \<or> js_gt (js_abs (center ! 0)) (Fin 180)
            then Some (CenterLongitudeOutside (center ! 0))
          else if \<not> isFinite (center ! 1) \<or> js_gt (js_abs (center ! 1)) (Fin 90)
            then Some (CenterLatitudeOutside (center ! 1))
          else None)"

definition check_zoom :: "num option \<Rightarrow> error option" where
  "check_zoom z =
     (case z of
        None \<Rightarrow> None
      | Some zoom \<Rightarrow>
          if js_lt zoom (Fin 0) \<or> js_gt zoom (Fin 22) then Some (ZoomOutside zoom) else None)"

definition check_ratio :: "num \<Rightarrow> error option" where
  "check_ratio ratio =
     (if \<not> truthy_num ratio \<or> js_lt ratio (Fin 1) then Some (RatioOutside ratio) else None)"

definition check_bounds :: "num list option \<Rightarrow> error option" where
  "check_bounds b =
     (case b of
        None \<Rightarrow> None
      | Some bounds \<Rightarrow>
          if length bounds \<noteq> 4 then Some (BoundsNotWSEN bounds)
          else if \<exists>x \<in> set bounds. \<not> isFinite x then Some (BoundsNotWSEN bounds)
          else if js_eq (bounds ! 0) (bounds ! 2) then Some BoundsWestEastSame
          else if js_eq (bounds ! 1) (bounds ! 3) then Some BoundsSouthNorthSame
          else None)"

text \<open>The padding test at the end of the bounds block, also found in \<open>render\<close>.\<close>

definition check_padding :: "num list option \<Rightarrow> int \<Rightarrow> int \<Rightarrow> int \<Rightarrow> error option" where
  "check_padding b padding width height =
     (if b \<noteq> None \<and> padding \<noteq> 0 then
        if rat_of_int \<bar>padding\<bar> \<ge> rat_of_int width / 2 then Some PaddingWidth
        else if rat_of_int \<bar>padding\<bar> \<ge> rat_of_int height / 2 then Some PaddingHeight
        else None
      else None)"

definition check_bearing :: "num option \<Rightarrow> error option" where
  "check_bearing b =
     (case b of
        None \<Rightarrow> None
      | Some bearing \<Rightarrow>
          if js_lt bearing (Fin 0) \<or> js_gt bearing (Fin 360)
          then Some (BearingOutside bearing) else None)"

definition check_pitch :: "num option \<Rightarrow> error option" where
  "check_pitch p =
     (case p of
        None \<Rightarrow> None
      | Some pitch \<Rightarrow>
          if js_lt pitch (Fin 0) \<or> js_gt pitch (Fin 60) then Some (PitchOutside pitch) else None)"

text \<open>\<open>if (!((center && zoom !== null) || bounds))\<close>: here \<open>center\<close> and \<open>bounds\<close> are
  \<open>null\<close> or arrays, and an array is truthy.\<close>

definition check_required :: "num list option \<Rightarrow> num option \<Rightarrow> num list option \<Rightarrow> error option" where
  "check_required center zoom bounds =
     (if \<not> ((center \<noteq> None \<and> zoom \<noteq> None) \<or> bounds \<noteq> None)
      then Some CenterZoomOrBoundsRequired else None)"

text \<open>The loop over \<open>Object.values(images)\<close> (as in \<open>server.js\<close>: \<open>image && image.url\<close>).\<close>

fun check_images_list :: "'a env \<Rightarrow> (string \<times> image) list \<Rightarrow> error option" where
  "check_images_list E [] = None"
| "check_images_list E ((k, img) # rest) =
     (case url img of
        None \<Rightarrow> Some InvalidImageObject
      | Some u \<Rightarrow>
          if u = [] then Some InvalidImageObject
          else if \<not> URL_ok E u then Some (InvalidImageURL u)
          else check_images_list E rest)"

definition check_images :: "'a env \<Rightarrow> (string \<times> image) list option \<Rightarrow> error option" where
  "check_images E imgs = (case imgs of None \<Rightarrow> None | Some l \<Rightarrow> check_images_list E l)"

fun check_imports_list :: "'a env \<Rightarrow> import_ref list \<Rightarrow> error option" where
  "check_imports_list E [] = None"
| "check_imports_list E (imp # rest) =
     (if \<not> (imp_url imp \<noteq> [] \<and> imp_id imp \<noteq> []) then Some InvalidImportObject
      else if \<not> prefix ''mapbox://styles'' (imp_url imp) \<and> \<not> URL_ok E (imp_url imp)
        then Some (InvalidImportURL (imp_url imp))
      else check_imports_list E rest)"

definition check_imports :: "'a env \<Rightarrow> import_ref list option \<Rightarrow> error option" where
  "check_imports E imps = (case imps of None \<Rightarrow> None | Some l \<Rightarrow> check_imports_list E l)"

text \<open>The first check that throws decides; the checks after it do not run.\<close>

fun first_error :: "error option list \<Rightarrow> error option" where
  "first_error [] = None"
| "first_error (None # rest) = first_error rest"
| "first_error (Some e # rest) = Some e"

definition the_center :: "'a env \<Rightarrow> 'a params \<Rightarrow> num list option" where
  "the_center E p = map_option (decode_list E) (p_center p)"

definition the_zoom :: "'a env \<Rightarrow> 'a params \<Rightarrow> num option" where
  "the_zoom E p = map_option (decode_zoom E) (p_zoom p)"

definition the_bounds :: "'a env \<Rightarrow> 'a params \<Rightarrow> num list option" where
  "the_bounds E p = map_option (decode_list E) (p_bounds p)"

definition the_padding :: "'a params \<Rightarrow> int" where
  "the_padding p = (case p_padding p of None \<Rightarrow> 0 | Some n \<Rightarrow> n)"

definition the_ratio :: "'a params \<Rightarrow> num" where
  "the_ratio p = (case p_ratio p of None \<Rightarrow> Fin 1 | Some r \<Rightarrow> r)"

definition validate :: "'a env \<Rightarrow> 'a params \<Rightarrow> error option" where
  "validate E p =
     first_error
       [ check_style E (p_style p),
         check_center (the_center E p),
         check_zoom (the_zoom E p),
         check_ratio (the_ratio p),
         check_bounds (the_bounds E p),
         check_padding (the_bounds E p) (the_padding p) (p_width p) (p_height p),
         check_bearing (p_bearing p),
         check_pitch (p_pitch p),
         check_required (the_center E p) (the_zoom E p) (the_bounds E p),
         check_images E (p_images p),
         check_imports E (p_imports p) ]"

section \<open>The resource fetcher\<close>

text \<open>\<open>res.ok\<close>: the status is in the range 200 to 299.\<close>

definition ok :: "response \<Rightarrow> bool" where
  "ok res = (200 \<le> status res \<and> status res \<le> 299)"

text \<open>\<open>h || undefined\<close> and \<open>if (h)\<close> on a header: an empty header counts as absent.\<close>

definition header :: "string option \<Rightarrow> string option" where
  "header h = (if truthy_str h then h else None)"

text \<open>
  The \<open>then\<close> handler of \<open>getRemoteTile\<close>: the result is what the callback receives,
  \<open>Inl err\<close> for \<open>callback(err)\<close>, \<open>Inr None\<close> for \<open>callback(null, null)\<close> and
  \<open>Inr (Some response)\<close> for \<open>callback(null, response)\<close>.
\<close>

definition tile_response :: "string \<Rightarrow> response \<Rightarrow> error + request_response option" where
  "tile_response u res =
     (if status res = 204 then Inr None
      else if status res = 404 then Inr None
      else if \<not> ok res then Inl (RemoteTileFailed u (status res))
      else case body res of
             None \<Rightarrow> Inl NetworkFailure
           | Some bytes \<Rightarrow>
               Inr (Some \<lparr> data = bytes,
                           modified = header (h_last_modified res),
                           expires = header (h_expires res),
                           etag = header (h_etag res) \<rparr>))"

definition getRemoteTile :: "'a env \<Rightarrow> string \<Rightarrow> error + request_response option" where
  "getRemoteTile E u = (case fetch E u of Inl e \<Rightarrow> Inl e | Inr res \<Rightarrow> tile_response u res)"

text \<open>The \<open>then\<close> handler of \<open>getRemoteAsset\<close>.\<close>

definition asset_response :: "string \<Rightarrow> response \<Rightarrow> error + request_response" where
  "asset_response u res =
     (if \<not> ok res then Inl (RemoteAssetFailed u (status res))
      else case body res of
             None \<Rightarrow> Inl NetworkFailure
           | Some bytes \<Rightarrow>
               Inr \<lparr> data = bytes,
                     modified = header (h_last_modified res),
                     expires = header (h_expires res),
                     etag = header (h_etag res) \<rparr>)"

definition getRemoteAsset :: "'a env \<Rightarrow> string \<Rightarrow> error + request_response" where
  "getRemoteAsset E u = (case fetch E u of Inl e \<Rightarrow> Inl e | Inr res \<Rightarrow> asset_response u res)"

definition isMapboxURL :: "string \<Rightarrow> bool" where
  "isMapboxURL u = prefix ''mapbox://'' u"

text \<open>\<open>requestHandler({url, kind}, callback)\<close>: the kinds are 2 source, 3 tile, 4 glyph,
  5 sprite image, 6 sprite JSON and 7 image source.\<close>

definition requestHandler :: "'a env \<Rightarrow> string \<Rightarrow> nat \<Rightarrow> error + request_response option" where
  "requestHandler E u kind =
     (if isMapboxURL u then Inl MapboxNotSupported
      else if kind = 3 then getRemoteTile E u
      else if kind = 2 \<or> kind = 4 \<or> kind = 5 \<or> kind = 6 \<or> kind = 7
        then map_sum (\<lambda>e. e) Some (getRemoteAsset E u)
      else Inl (ResourceRequestFailed u (RequestKindNotHandled kind)))"

section \<open>The test for local tile archives\<close>

text \<open>
  \<open>MBTILES_REGEXP = /mbtiles:\/\/(\S+?)(?=[/"]+)/gi\<close> applied with \<open>String.match\<close>: the
  result is truthy when the expression matches at some position. Characters are the code
  units below 256. \<open>is_space\<close> is \<open>\s\<close> on them; \<open>lower_ascii\<close> folds the case of the
  letters the flag \<open>i\<close> identifies with those of the literal.
\<close>

definition is_space :: "char \<Rightarrow> bool" where
  "is_space c = (of_char c \<in> {9, 10, 11, 12, 13, 32, 160 :: nat})"

definition lower_ascii :: "char \<Rightarrow> char" where
  "lower_ascii c =
     (if 65 \<le> (of_char c :: nat) \<and> (of_char c :: nat) \<le> 90 then char_of (of_char c + 32 :: nat) else c)"

definition is_delim :: "char \<Rightarrow> bool" where
  "is_delim c = (c = CHR ''/'' \<or> c = CHR 0x22)"

text \<open>\<open>(\S+?)(?=[/"]+)\<close>: at least one character that is not white space, extended one
  character at a time until a \<open>/\<close> or a \<open>"\<close> follows.\<close>

fun lazy_tail :: "string \<Rightarrow> bool" where
  "lazy_tail [] = False"
| "lazy_tail (c # cs) =
     (\<not> is_space c \<and> (case cs of [] \<Rightarrow> False | d # _ \<Rightarrow> is_delim d \<or> lazy_tail cs))"

definition match_here :: "string \<Rightarrow> bool" where
  "match_here s = (map lower_ascii (take 10 s) = ''mbtiles://'' \<and> lazy_tail (drop 10 s))"

fun mbtiles_match :: "string \<Rightarrow> bool" where
  "mbtiles_match [] = False"
| "mbtiles_match (c # cs) = (match_here (c # cs) \<or> mbtiles_match cs)"

text \<open>
  The same pattern read as a description: somewhere in the text stands \<open>mbtiles://\<close> in any
  letter case, then a non-empty run free of white space, then \<open>/\<close> or \<open>"\<close>.
\<close>

definition mbtiles_reference :: "string \<Rightarrow> bool" where
  "mbtiles_reference s =
     (\<exists>pre scheme name d post.
        s = pre @ scheme @ name @ d # post \<and> map lower_ascii scheme = ''mbtiles://'' \<and>
        name \<noteq> [] \<and> (\<forall>c \<in> set name. \<not> is_space c) \<and> is_delim d)"

section \<open>Icons\<close>

text \<open>
  \<open>loadImage\<close>. \<open>Buffer.from(undefined, 'base64')\<close> throws a TypeError; on a string it
  decodes and does not throw. A successful \<open>getRemoteAssetPromise\<close> always carries
  \<open>data\<close>, so the test \<open>!img?.data\<close> never fires. Decoding with \<open>sharp\<close> and
  \<open>map.addImage\<close> are \<open>add_icon\<close>.
\<close>

definition icon_bytes :: "'a env \<Rightarrow> string \<Rightarrow> error + 8 word list" where
  "icon_bytes E u =
     (if prefix ''data:'' u then
        (case at_index (js_split ''base64,'' u) 1 of
           None \<Rightarrow> Inl TypeError
         | Some payload \<Rightarrow> Inr (base64_decode E payload))
      else map_sum (\<lambda>e. e) data (getRemoteAsset E u))"

definition loadImage :: "'a env \<Rightarrow> string \<Rightarrow> image \<Rightarrow> error option" where
  "loadImage E i img =
     (case url img of
        None \<Rightarrow> Some (InvalidUrlForImage i)
      | Some u \<Rightarrow>
          if u = [] then Some (InvalidUrlForImage i)
          else case icon_bytes E u of
                 Inl e \<Rightarrow> Some (ErrorLoadingIconImage i e)
               | Inr imgBuffer \<Rightarrow>
                   (case add_icon E i imgBuffer
                           (case pixelRatio img of None \<Rightarrow> Fin 1 | Some r \<Rightarrow> r)
                           (case sdf img of None \<Rightarrow> False | Some b \<Rightarrow> b) of
                      Some e \<Rightarrow> Some (ErrorLoadingIconImage i e)
                    | None \<Rightarrow> None))"

text \<open>\<open>loadImages\<close>: \<open>Promise.all\<close> over the entries rejects as soon as one of them rejects;
  the entries are taken in order here.\<close>

definition loadImages :: "'a env \<Rightarrow> (string \<times> image) list option \<Rightarrow> error option" where
  "loadImages E images =
     (case images of
        None \<Rightarrow> None
      | Some l \<Rightarrow> first_error (map (\<lambda>(i, img). loadImage E i img) l))"

section \<open>The pixel conversion\<close>

text \<open>
  The buffer is a \<open>Uint8Array\<close>. Reading outside it gives \<open>undefined\<close>, which is NaN in
  arithmetic and differs from 0; writing outside it does nothing; a stored number is
  converted with ToUint8 (truncation, then modulo 256; NaN and the infinities give 0).
\<close>

fun ToUint8 :: "num \<Rightarrow> 8 word" where
  "ToUint8 (Fin q) = word_of_int (if 0 \<le> q then \<lfloor>q\<rfloor> else \<lceil>q\<rceil>)"
| "ToUint8 a = 0"

definition px_get :: "8 word list \<Rightarrow> nat \<Rightarrow> num" where
  "px_get buffer i = (if i < length buffer then Fin (of_nat (unat (buffer ! i))) else NaN)"

definition px_set :: "8 word list \<Rightarrow> nat \<Rightarrow> num \<Rightarrow> 8 word list" where
  "px_set buffer i v = (if i < length buffer then buffer[i := ToUint8 v] else buffer)"

text \<open>One pass of the body of the \<open>for\<close> loop of \<open>toPNG\<close>, at index \<open>i\<close>.\<close>

definition unpremultiply_at :: "arith \<Rightarrow> 8 word list \<Rightarrow> nat \<Rightarrow> 8 word list" where
  "unpremultiply_at A buffer i =
     (let alpha = px_get buffer (i + 3);
          norm = fl_div A alpha (Fin 255)
      in if js_eq alpha (Fin 0) then
           px_set (px_set (px_set buffer i (Fin 0)) (i + 1) (Fin 0)) (i + 2) (Fin 0)
         else
           (let b0 = px_set buffer i (fl_div A (px_get buffer i) norm);
                b1 = px_set b0 (i + 1) (fl_div A (px_get b0 (i + 1)) norm)
            in px_set b1 (i + 2) (fl_div A (px_get b1 (i + 2)) norm)))"

text \<open>\<open>for (let i = 0; i < buffer.length; i += 4)\<close>\<close>

function toPNG_loop :: "arith \<Rightarrow> nat \<Rightarrow> 8 word list \<Rightarrow> 8 word list" where
  "toPNG_loop A i buffer =
     (if i < length buffer then toPNG_loop A (i + 4) (unpremultiply_at A buffer i) else buffer)"
  by pat_completeness auto
termination
proof (relation "measure (\<lambda>(A, i, buffer). length buffer - i)")
  show "wf (measure (\<lambda>(A, i, buffer). length buffer - i))"
    by simp
next
  fix A :: arith and i :: nat and buffer :: "8 word list"
  assume "i < length buffer"
  moreover have "length (unpremultiply_at A buffer i) = length buffer"
    by (simp add: unpremultiply_at_def px_set_def Let_def)
  ultimately show "((A, i + 4, unpremultiply_at A buffer i), (A, i, buffer))
      \<in> measure (\<lambda>(A, i, buffer). length buffer - i)"
    by simp
qed

declare toPNG_loop.simps [simp del]

definition toPNG :: "'a env \<Rightarrow> 8 word list \<Rightarrow> int \<Rightarrow> int \<Rightarrow> num \<Rightarrow> error + 8 word list" where
  "toPNG E buffer width height ratio =
     png_encode E
       \<lparr> raw_data = toPNG_loop (ar E) 0 buffer,
         raw_width = js_round (fl_mul (ar E) (Fin (of_int width)) ratio),
         raw_height = js_round (fl_mul (ar E) (Fin (of_int height)) ratio) \<rparr>"

section \<open>\<open>render\<close> and \<open>renderImage\<close>\<close>

text \<open>The tests at the head of \<open>render\<close> after \<open>if (!style)\<close>; its center test has no
  finiteness test and its bounds test looks at the length only.\<close>

definition check_center_render :: "num list option \<Rightarrow> error option" where
  "check_center_render c =
     (case c of
        None \<Rightarrow> None
      | Some center \<Rightarrow>
          if length center \<noteq> 2 then Some (CenterNotLonLat center)
          else if js_gt (js_abs (center ! 0)) (Fin 180)
            then Some (CenterLongitudeOutside (center ! 0))
          else if js_gt (js_abs (center ! 1)) (Fin 90)
            then Some (CenterLatitudeOutside (center ! 1))
          else None)"

definition check_bounds_render :: "num list option \<Rightarrow> error option" where
  "check_bounds_render b =
     (case b of
        None \<Rightarrow> None
      | Some bounds \<Rightarrow> if length bounds \<noteq> 4 then Some (BoundsNotWSEN bounds) else None)"

definition render_checks :: "int \<Rightarrow> int \<Rightarrow> options \<Rightarrow> error option" where
  "render_checks width height opts =
     first_error
       [ if \<not> (width \<noteq> 0 \<and> height \<noteq> 0) then Some WidthHeightRequired else None,
         check_center_render (o_center opts),
         check_zoom (o_zoom opts),
         check_bearing (o_bearing opts),
         check_pitch (o_pitch opts),
         check_bounds_render (o_bounds opts),
         check_padding (o_bounds opts) (o_padding opts) width height ]"

text \<open>\<open>// calculate zoom and center from bounds and image dimensions\<close>\<close>

definition resolve_viewport ::
  "'a env \<Rightarrow> options \<Rightarrow> int \<Rightarrow> int \<Rightarrow> num option \<times> num list option"
where
  "resolve_viewport E opts width height =
     (case o_bounds opts of
        None \<Rightarrow> (o_zoom opts, o_center opts)
      | Some bounds \<Rightarrow>
          if o_zoom opts = None \<or> o_center opts = None then
            (let vp = viewport E bounds
                        (width - 2 * o_padding opts, height - 2 * o_padding opts)
             in (Some (js_max (fl_sub (ar E) (fst vp) (Fin 1)) (Fin 0)), Some (snd vp)))
          else (o_zoom opts, o_center opts))"

text \<open>\<open>Promise.all(imports.map(...))\<close>: all imports are fetched; one failure rejects the
  whole (the imports are taken in order here).\<close>

fun resolve_all :: "'a env \<Rightarrow> string option \<Rightarrow> import_ref list \<Rightarrow> error + 'a resolved list" where
  "resolve_all E token [] = Inr []"
| "resolve_all E token (e # es) =
     (case getRemoteStyleImport E (imp_url e) token of
        Inl err \<Rightarrow> Inl err
      | Inr st \<Rightarrow>
          (case resolve_all E token es of
             Inl err \<Rightarrow> Inl err
           | Inr rs \<Rightarrow> Inr (\<lparr>r_id = imp_id e, r_url = imp_url e, r_style = st\<rparr> # rs)))"

definition corrected_style :: "'a env \<Rightarrow> 'a style \<Rightarrow> options \<Rightarrow> error + 'a style" where
  "corrected_style E style opts =
     (case o_imports opts of
        None \<Rightarrow> Inr style
      | Some imports \<Rightarrow>
          if length imports > 0 then
            (case resolve_all E (o_token opts) imports of
               Inl e \<Rightarrow> Inl e
             | Inr importedStyles \<Rightarrow> merge_imports style importedStyles)
          else Inr style)"

text \<open>
  \<open>render\<close>. The result pairs the calls made to the external renderer (\<open>map.render\<close>) with
  the value of the promise: \<open>Inl\<close> a rejection, \<open>Inr\<close> the PNG bytes.

  The repository holds a second copy of \<open>render\<close> and of \<open>renderImage\<close>. It is the same in
  the tests, the viewport, the merge of imports and the test for local tile archives. It
  differs in three places: \<open>renderImage\<close> asks an image for the key \<open>url\<close> rather than
  for a truthy \<open>url\<close>, \<open>loadImage\<close> fetches a remote icon without looking at the status,
  and \<open>render\<close> gives the renderer's buffer to the PNG encoder as it is, with the same
  dimensions, without \<open>toPNG\<close>. The definitions here follow \<open>render.ts\<close> and \<open>server.js\<close>;
  the second \<open>render\<close> is \<open>render_second\<close> below.
\<close>

definition render ::
  "'a env \<Rightarrow> 'a style option \<Rightarrow> int \<Rightarrow> int \<Rightarrow> options
     \<Rightarrow> 'a render_call list \<times> (error + 8 word list)"
where
  "render E style width height opts =
     (case style of
        None \<Rightarrow> ([], Inl StyleRequired)
      | Some st \<Rightarrow>
     (case render_checks width height opts of
        Some e \<Rightarrow> ([], Inl e)
      | None \<Rightarrow>
     (let vp = resolve_viewport E opts width height in
      case corrected_style E st opts of
        Inl e \<Rightarrow> ([], Inl e)
      | Inr correctedStyle \<Rightarrow>
          if mbtiles_match (JSON_stringify E correctedStyle)
          then ([], Inl LocalMbtilesNotSupported)
          else
     (case loadImages E (o_images opts) of
        Some e \<Rightarrow> ([], Inl e)
      | None \<Rightarrow>
          (let call = \<lparr> rc_style = correctedStyle, rc_zoom = fst vp, rc_center = snd vp,
                        rc_height = height, rc_width = width,
                        rc_bearing = o_bearing opts, rc_pitch = o_pitch opts \<rparr>
           in case map_render E call of
                Inl e \<Rightarrow> ([call], Inl e)
              | Inr buffer \<Rightarrow> ([call], toPNG E buffer width height (o_ratio opts)))))))"

text \<open>The options \<open>renderImage\<close> builds for \<open>render\<close>.\<close>

definition options_of :: "'a env \<Rightarrow> 'a params \<Rightarrow> string option \<Rightarrow> options" where
  "options_of E p tilePath =
     \<lparr> o_zoom = the_zoom E p, o_center = the_center E p, o_bounds = the_bounds E p,
       o_padding = the_padding p, o_tilePath = tilePath, o_ratio = the_ratio p,
       o_bearing = p_bearing p, o_pitch = p_pitch p, o_token = p_token p,
       o_images = p_images p, o_imports = p_imports p \<rparr>"

definition the_style :: "'a env \<Rightarrow> 'a params \<Rightarrow> 'a style option" where
  "the_style E p = (case decode_style E (p_style p) of Inl e \<Rightarrow> None | Inr st \<Rightarrow> st)"

definition renderImage ::
  "'a env \<Rightarrow> 'a params \<Rightarrow> string option \<Rightarrow> 'a render_call list \<times> (error + 8 word list)"
where
  "renderImage E p tilePath =
     (case validate E p of
        Some e \<Rightarrow> ([], Inl e)
      | None \<Rightarrow>
          (let r = render E (the_style E p) (p_width p) (p_height p) (options_of E p tilePath)
           in (fst r, map_sum ErrorProcessingRenderRequest (\<lambda>png. png) (snd r))))"

section \<open>The second copy of \<open>render\<close>\<close>

text \<open>
  The second \<open>loadImage\<close>: the \<open>data:\<close> branch is the same; a remote icon is
  \<open>fetch(url).then((res) => res.arrayBuffer())\<close>, whatever the status. An \<open>ArrayBuffer\<close> is
  truthy, so its test \<open>!img\<close> never fires.
\<close>

definition icon_bytes_second :: "'a env \<Rightarrow> string \<Rightarrow> error + 8 word list" where
  "icon_bytes_second E u =
     (if prefix ''data:'' u then
        (case at_index (js_split ''base64,'' u) 1 of
           None \<Rightarrow> Inl TypeError
         | Some payload \<Rightarrow> Inr (base64_decode E payload))
      else case fetch E u of
             Inl e \<Rightarrow> Inl e
           | Inr res \<Rightarrow> (case body res of None \<Rightarrow> Inl NetworkFailure | Some bytes \<Rightarrow> Inr bytes))"

definition loadImage_second :: "'a env \<Rightarrow> string \<Rightarrow> image \<Rightarrow> error option" where
  "loadImage_second E i img =
     (case url img of
        None \<Rightarrow> Some (InvalidUrlForImage i)
      | Some u \<Rightarrow>
          if u = [] then Some (InvalidUrlForImage i)
          else case icon_bytes_second E u of
                 Inl e \<Rightarrow> Some (ErrorLoadingIconImage i e)
               | Inr imgBuffer \<Rightarrow>
                   (case add_icon E i imgBuffer
                           (case pixelRatio img of None \<Rightarrow> Fin 1 | Some r \<Rightarrow> r)
                           (case sdf img of None \<Rightarrow> False | Some b \<Rightarrow> b) of
                      Some e \<Rightarrow> Some (ErrorLoadingIconImage i e)
                    | None \<Rightarrow> None))"

definition loadImages_second :: "'a env \<Rightarrow> (string \<times> image) list option \<Rightarrow> error option" where
  "loadImages_second E images =
     (case images of
        None \<Rightarrow> None
      | Some l \<Rightarrow> first_error (map (\<lambda>(i, img). loadImage_second E i img) l))"

text \<open>
  The last statement of the second \<open>render\<close>:
  \<open>return sharp(buffer, { raw: { width: Math.round(width * ratio), height:
  Math.round(height * ratio), channels: 4 } }).png(...).toBuffer()\<close>, on the buffer as the
  renderer returned it.
\<close>

definition encode_unconverted ::
  "'a env \<Rightarrow> 8 word list \<Rightarrow> int \<Rightarrow> int \<Rightarrow> num \<Rightarrow> error + 8 word list"
where
  "encode_unconverted E buffer width height ratio =
     png_encode E
       \<lparr> raw_data = buffer,
         raw_width = js_round (fl_mul (ar E) (Fin (of_int width)) ratio),
         raw_height = js_round (fl_mul (ar E) (Fin (of_int height)) ratio) \<rparr>"

definition render_second ::
  "'a env \<Rightarrow> 'a style option \<Rightarrow> int \<Rightarrow> int \<Rightarrow> options
     \<Rightarrow> 'a render_call list \<times> (error + 8 word list)"
where
  "render_second E style width height opts =
     (case style of
        None \<Rightarrow> ([], Inl StyleRequired)
      | Some st \<Rightarrow>
     (case render_checks width height opts of
        Some e \<Rightarrow> ([], Inl e)
      | None \<Rightarrow>
     (let vp = resolve_viewport E opts width height in
      case corrected_style E st opts of
        Inl e \<Rightarrow> ([], Inl e)
      | Inr correctedStyle \<Rightarrow>
          if mbtiles_match (JSON_stringify E correctedStyle)
          then ([], Inl LocalMbtilesNotSupported)
          else
     (case loadImages_second E (o_images opts) of
        Some e \<Rightarrow> ([], Inl e)
      | None \<Rightarrow>
          (let call = \<lparr> rc_style = correctedStyle, rc_zoom = fst vp, rc_center = snd vp,
                        rc_height = height, rc_width = width,
                        rc_bearing = o_bearing opts, rc_pitch = o_pitch opts \<rparr>
           in case map_render E call of
                Inl e \<Rightarrow> ([call], Inl e)
              | Inr buffer \<Rightarrow>
                  ([call], encode_unconverted E buffer width height (o_ratio opts)))))))"

section \<open>What the merge writes, in the order of the writes\<close>

text \<open>
  The assignments \<open>correctedStyle.sources[name] = source\<close> that the merge of the imports
  \<open>imps\<close> performs, first to last, where \<open>idx\<close> is the index of the first import.
\<close>

fun imported_entries :: "nat \<Rightarrow> 'a resolved list \<Rightarrow> (string \<times> 'a) list" where
  "imported_entries idx [] = []"
| "imported_entries idx (imp # rest) =
     map (\<lambda>(key, v). (rename (importId (r_id imp) idx) key, v))
       (case sources (r_style imp) of None \<Rightarrow> [] | Some l \<Rightarrow> l)
     @ imported_entries (Suc idx) rest"

text \<open>The rewritten layers of each import, in the order of the imports.\<close>

fun rewritten_layers :: "nat \<Rightarrow> 'a resolved list \<Rightarrow> 'a layer list list" where
  "rewritten_layers idx [] = []"
| "rewritten_layers idx (imp # rest) =
     map (rewrite_layer (importId (r_id imp) idx))
       (case layers (r_style imp) of None \<Rightarrow> [] | Some l \<Rightarrow> l)
     # rewritten_layers (Suc idx) rest"

section \<open>The pixel conversion as the specification words it\<close>

text \<open>
  ``For each pixel, if alpha is 0 set RGB to 0, else divide each of R, G, B by
  \<open>alpha / 255\<close>'': a colour byte \<open>c\<close> of a pixel with alpha byte \<open>alpha\<close> becomes 0 when
  \<open>alpha\<close> is 0 and \<open>c / (alpha / 255)\<close> otherwise, stored as a byte.
  \<open>converted A buffer j\<close> is byte \<open>j\<close> of the converted buffer: every fourth byte is an
  alpha byte and stays, the three bytes before it are the colours of its pixel. These two
  definitions are not taken from the code; \<open>toPNG_loop\<close> is, and is compared with them.
\<close>

definition byte_num :: "8 word \<Rightarrow> num" where
  "byte_num b = Fin (of_nat (unat b))"

definition unpremultiplied :: "arith \<Rightarrow> 8 word \<Rightarrow> 8 word \<Rightarrow> 8 word" where
  "unpremultiplied A alpha c =
     (if alpha = 0 then 0
      else ToUint8 (fl_div A (byte_num c) (fl_div A (byte_num alpha) (Fin 255))))"

definition converted :: "arith \<Rightarrow> 8 word list \<Rightarrow> nat \<Rightarrow> 8 word" where
  "converted A buffer j =
     (if j mod 4 = 3 then buffer ! j
      else unpremultiplied A (buffer ! (j - j mod 4 + 3)) (buffer ! j))"

section \<open>Sample data\<close>

definition demo_base :: "nat style" where
  "demo_base =
     \<lparr> sources = Some [(''basemap'', 0)],
       layers = Some [\<lparr>source = Some ''basemap'', props = 0\<rparr>],
       fog = None, glyphs = None, sprite = None \<rparr>"

definition demo_importA :: "nat resolved" where
  "demo_importA =
     \<lparr> r_id = ''basemap'', r_url = ''https://a.example/style.json'',
       r_style = \<lparr> sources = Some [(''composite'', 1)],
                   layers = Some [\<lparr>source = Some ''composite'', props = 1\<rparr>],
                   fog = None, glyphs = None, sprite = None \<rparr> \<rparr>"

definition demo_importB :: "nat resolved" where
  "demo_importB =
     \<lparr> r_id = ''terrain'', r_url = ''https://b.example/style.json'',
       r_style = \<lparr> sources = Some [(''dem'', 2)],
                   layers = Some [\<lparr>source = None, props = 2\<rparr>],
                   fog = None, glyphs = None, sprite = None \<rparr> \<rparr>"

definition empty_style :: "'a style" where
  "empty_style = \<lparr> sources = None, layers = None, fog = None, glyphs = None, sprite = None \<rparr>"

definition demo_style :: "nat style" where
  "demo_style =
     \<lparr> sources = Some [], layers = Some [], fog = None, glyphs = None, sprite = None \<rparr>"

text \<open>A world in which the network is down, the fitted viewport is zoom 9 at (15, 15) and
  the renderer returns two pixels.\<close>

definition demo_env :: "nat env" where
  "demo_env =
     \<lparr> ar = exact_arith,
       js_Number = (\<lambda>text. NaN),
       js_parseFloat = (\<lambda>text. NaN),
       JSON_parse = (\<lambda>text. None),
       URL_ok = (\<lambda>u. True),
       JSON_stringify = (\<lambda>st. ''{}''),
       viewport = (\<lambda>bounds dims. (Fin 9, [Fin 15, Fin 15])),
       fetch = (\<lambda>u. Inl NetworkFailure),
       getRemoteStyleImport = (\<lambda>u token. Inl (ImportFetchFailed u)),
       base64_decode = (\<lambda>payload. []),
       add_icon = (\<lambda>i bytes ratio sdf. None),
       map_render = (\<lambda>call. Inr [100, 50, 0, 200, 7, 8, 9, 0]),
       png_encode = (\<lambda>img. Inr (raw_data img)) \<rparr>"

text \<open>The same world with a server that answers every request with the given status.\<close>

definition env_status :: "nat \<Rightarrow> nat env" where
  "env_status n =
     demo_env \<lparr> fetch := (\<lambda>u. Inr \<lparr> status = n, body = Some [1, 2, 3], h_etag = None,
                                     h_last_modified = None, h_expires = None \<rparr>) \<rparr>"

text \<open>The same world with a style that serialises to \<open>{"url":"mbtiles://foo/1/2/3"}\<close>.\<close>

definition env_mbtiles :: "nat env" where
  "env_mbtiles =
     demo_env \<lparr> JSON_stringify :=
       (\<lambda>st. ''{'' @ [CHR 0x22] @ ''url'' @ [CHR 0x22] @ '':'' @ [CHR 0x22]
              @ ''mbtiles://foo/1/2/3'' @ [CHR 0x22] @ ''}'') \<rparr>"

text \<open>\<open>{style: {}, width: 400, height: 260}\<close>\<close>

definition request_400_260 :: "'a params" where
  "request_400_260 =
     \<lparr> p_style = Some (Val empty_style), p_width = 400, p_height = 260,
       p_center = None, p_zoom = None, p_bounds = None, p_padding = None, p_ratio = None,
       p_bearing = None, p_pitch = None, p_token = None, p_images = None, p_imports = None \<rparr>"

definition request_zoom_30 :: "nat params" where
  "request_zoom_30 = request_400_260 \<lparr> p_zoom := Some (Val (Fin 30)) \<rparr>"

definition request_bounds :: "num list \<Rightarrow> nat params" where
  "request_bounds b = request_400_260 \<lparr> p_style := Some (Val demo_style), p_bounds := Some (Val b) \<rparr>"

definition request_center :: "num list \<Rightarrow> nat params" where
  "request_center c =
     request_400_260 \<lparr> p_style := Some (Val demo_style), p_center := Some (Val c),
                       p_zoom := Some (Val (Fin 5)) \<rparr>"

definition options_bounds :: options where
  "options_bounds =
     \<lparr> o_zoom = None, o_center = None, o_bounds = Some [Fin 10, Fin 10, Fin 20, Fin 20],
       o_padding = 0, o_tilePath = None, o_ratio = Fin 1, o_bearing = None, o_pitch = None,
       o_token = None, o_images = None, o_imports = None \<rparr>"

definition options_center_zoom :: options where
  "options_center_zoom =
     options_bounds \<lparr> o_zoom := Some (Fin 5), o_center := Some [Fin 7, Fin 45] \<rparr>"

text \<open>
  A world whose renderer returns four premultiplied pixels (a 2 by 2 image: half
  transparent orange, transparent, opaque white, transparent black at alpha 128) and whose
  PNG encoder is \<open>enc\<close>; a request of width 1 and height 1 at ratio 1.5.
\<close>

definition env_pixels :: "(raw_image \<Rightarrow> error + 8 word list) \<Rightarrow> nat env" where
  "env_pixels enc =
     demo_env \<lparr> map_render :=
                  (\<lambda>call. Inr [100, 50, 0, 200, 0, 0, 0, 0, 255, 255, 255, 255, 0, 0, 0, 128]),
                png_encode := enc \<rparr>"

definition options_ratio :: options where
  "options_ratio = options_bounds \<lparr> o_ratio := Fin (3 / 2) \<rparr>"

definition demo_icon :: image where
  "demo_icon = \<lparr> url = Some ''data:image/png,AAAA'', pixelRatio = None, sdf = None \<rparr>"

section \<open>The merge of imported styles\<close>

lemma add_sources_map_of:
  "add_sources iid es (Some m) = Inr r \<Longrightarrow>
   \<exists>m'. r = Some m' \<and>
     map_of m' = map_of m ++ map_of (rev (map (\<lambda>(key, v). (rename iid key, v)) es))"
proof (induction es arbitrary: m)
  case Nil
  then show ?case by auto
next
  case (Cons a es)
  obtain key v where a: "a = (key, v)" by (cases a)
  from Cons.prems have "add_sources iid es (Some (AList.update (rename iid key) v m)) = Inr r"
    by (simp add: a)
  from Cons.IH [OF this] obtain m' where
    r: "r = Some m'" and
    m': "map_of m' = map_of (AList.update (rename iid key) v m)
           ++ map_of (rev (map (\<lambda>(key, v). (rename iid key, v)) es))"
    by blast
  have "map_of (AList.update (rename iid key) v m) = map_of m ++ [rename iid key \<mapsto> v]"
    by (simp add: update_conv')
  with m' have
    "map_of m' = map_of m ++ map_of (rev (map (\<lambda>(key, v). (rename iid key, v)) (a # es)))"
    by (simp add: a)
  with r show ?case by blast
qed

lemma merge_one_sources:
  assumes "merge_one b idx imp = Inr b'" and "sources b = Some bs"
  shows "\<exists>ms. sources b' = Some ms \<and>
           map_of ms = map_of bs ++ map_of (rev (imported_entries idx [imp]))"
  using assms add_sources_map_of
  by (fastforce simp: merge_one_def Let_def split: option.splits sum.splits)

lemma merge_from_sources:
  "merge_from idx b imps = Inr b' \<Longrightarrow> sources b = Some bs \<Longrightarrow>
   \<exists>ms. sources b' = Some ms \<and>
     map_of ms = map_of bs ++ map_of (rev (imported_entries idx imps))"
proof (induction imps arbitrary: idx b bs)
  case Nil
  then show ?case by simp
next
  case (Cons imp imps)
  from Cons.prems(1) obtain b1 where
    one: "merge_one b idx imp = Inr b1" and rest: "merge_from (Suc idx) b1 imps = Inr b'"
    by (auto split: sum.splits)
  from merge_one_sources [OF one Cons.prems(2)] obtain m1 where
    m1: "sources b1 = Some m1"
        "map_of m1 = map_of bs ++ map_of (rev (imported_entries idx [imp]))"
    by blast
  from Cons.IH [OF rest m1(1)] obtain ms where
    ms: "sources b' = Some ms"
        "map_of ms = map_of m1 ++ map_of (rev (imported_entries (Suc idx) imps))"
    by blast
  have "map_of ms = map_of bs ++ map_of (rev (imported_entries idx (imp # imps)))"
    using ms(2) m1(2) by simp
  with ms(1) show ?case by blast
qed

lemma merge_one_layers:
  assumes "merge_one b idx imp = Inr b'"
  shows "\<exists>bls. layers b = Some bls \<and>
           layers b' = Some (concat (rewritten_layers idx [imp]) @ bls)"
  using assms
  by (auto simp: merge_one_def Let_def split: option.splits sum.splits)

lemma merge_from_layers:
  "merge_from idx b imps = Inr b' \<Longrightarrow> layers b = Some bls \<Longrightarrow>
   layers b' = Some (concat (rev (rewritten_layers idx imps)) @ bls)"
proof (induction imps arbitrary: idx b bls)
  case Nil
  then show ?case by simp
next
  case (Cons imp imps)
  from Cons.prems(1) obtain b1 where
    one: "merge_one b idx imp = Inr b1" and rest: "merge_from (Suc idx) b1 imps = Inr b'"
    by (auto split: sum.splits)
  from merge_one_layers [OF one] Cons.prems(2)
  have "layers b1 = Some (concat (rewritten_layers idx [imp]) @ bls)" by auto
  from Cons.IH [OF rest this] show ?case by simp
qed

lemma add_sources_completes:
  "\<exists>m'. add_sources iid es (Some m) = Inr (Some m')"
  by (induction es arbitrary: m) auto

lemma merge_one_completes:
  assumes "sources b \<noteq> None" and "layers b \<noteq> None"
    and "sources (r_style imp) \<noteq> None" and "layers (r_style imp) \<noteq> None"
  shows "\<exists>b'. merge_one b idx imp = Inr b' \<and> sources b' \<noteq> None \<and> layers b' \<noteq> None"
proof -
  from assms obtain m ls im ils where
    "sources b = Some m" "layers b = Some ls"
    "sources (r_style imp) = Some im" "layers (r_style imp) = Some ils"
    by auto
  moreover obtain m' where "add_sources (importId (r_id imp) idx) im (Some m) = Inr (Some m')"
    using add_sources_completes by blast
  ultimately show ?thesis
    by (simp add: merge_one_def Let_def)
qed

text \<open>The merge completes when the base style and every import have \<open>sources\<close> and
  \<open>layers\<close>; it throws a TypeError only when one of these is missing.\<close>

lemma merge_from_completes:
  "sources b \<noteq> None \<Longrightarrow> layers b \<noteq> None \<Longrightarrow>
   \<forall>imp \<in> set imps. sources (r_style imp) \<noteq> None \<and> layers (r_style imp) \<noteq> None \<Longrightarrow>
   \<exists>b'. merge_from idx b imps = Inr b'"
proof (induction imps arbitrary: idx b)
  case Nil
  then show ?case by simp
next
  case (Cons imp imps)
  from merge_one_completes [of b imp idx] Cons.prems obtain b1 where
    "merge_one b idx imp = Inr b1" "sources b1 \<noteq> None" "layers b1 \<noteq> None"
    by auto
  moreover from Cons.IH [OF this(2,3), of "Suc idx"] Cons.prems(3)
  obtain b' where "merge_from (Suc idx) b1 imps = Inr b'" by auto
  ultimately show ?case by simp
qed

lemma demo_merge_A:
  "merge_imports demo_base [demo_importA] =
     Inr \<lparr> sources = Some [(''basemap'', 1)],
           layers = Some [\<lparr>source = Some ''basemap'', props = 1\<rparr>,
                          \<lparr>source = Some ''basemap'', props = 0\<rparr>],
           fog = None, glyphs = None, sprite = None \<rparr>"
  by (simp add: merge_imports_def merge_one_def Let_def demo_base_def demo_importA_def
      importId_def rename_def rewrite_layer_def rewrite_source_def)

lemma demo_merge_AB:
  "merge_imports demo_base [demo_importA, demo_importB] =
     Inr \<lparr> sources = Some [(''basemap'', 1), (''terrain-dem'', 2)],
           layers = Some [\<lparr>source = None, props = 2\<rparr>,
                          \<lparr>source = Some ''basemap'', props = 1\<rparr>,
                          \<lparr>source = Some ''basemap'', props = 0\<rparr>],
           fog = None, glyphs = None, sprite = None \<rparr>"
  by (simp add: merge_imports_def merge_one_def Let_def demo_base_def demo_importA_def
      demo_importB_def importId_def rename_def rewrite_layer_def rewrite_source_def)

text \<open>
  C1, as the code has it. The merge assigns every imported source under its rewritten name
  (\<open>importId\<close> for \<open>composite\<close>, \<open>importId-key\<close> otherwise), and an assignment replaces what
  the name held. So a source key \<open>k\<close> of the base style keeps its original value \<open>v\<close> after
  all imports are merged exactly when no import writes the name \<open>k\<close>; when one does, \<open>k\<close>
  holds the source written last under that name.
\<close>

theorem C1_base_source_after_merge:
  assumes "merge_imports base imps = Inr merged"
    and "sources base = Some bs"
    and "map_of bs k = Some v"
  shows "\<exists>ms. sources merged = Some ms \<and>
           map_of ms k =
             (case map_of (rev (imported_entries 0 imps)) k of
                None \<Rightarrow> Some v
              | Some w \<Rightarrow> Some w)"
proof -
  from merge_from_sources [OF assms(1) [unfolded merge_imports_def] assms(2)]
  obtain ms where ms: "sources merged = Some ms"
    and eq: "map_of ms = map_of bs ++ map_of (rev (imported_entries 0 imps))"
    by blast
  have "map_of ms k =
          (case map_of (rev (imported_entries 0 imps)) k of None \<Rightarrow> Some v | Some w \<Rightarrow> Some w)"
    unfolding eq using assms(3) by (simp add: map_add_def split: option.splits)
  with ms show ?thesis by blast
qed

theorem C1_base_source_after_merge_witness:
  "merge_imports demo_base [demo_importA, demo_importB] =
     Inr \<lparr> sources = Some [(''basemap'', 1), (''terrain-dem'', 2)],
           layers = Some [\<lparr>source = None, props = 2\<rparr>,
                          \<lparr>source = Some ''basemap'', props = 1\<rparr>,
                          \<lparr>source = Some ''basemap'', props = 0\<rparr>],
           fog = None, glyphs = None, sprite = None \<rparr>
   \<and> sources demo_base = Some [(''basemap'', 0)]
   \<and> map_of [(''basemap'', 0 :: nat)] ''basemap'' = Some 0
   \<and> map_of (rev (imported_entries 0 [demo_importA, demo_importB])) ''basemap'' = Some 1
   \<and> map_of [(''basemap'', 1 :: nat), (''terrain-dem'', 2)] ''basemap'' = Some 1"
proof -
  have s: "sources demo_base = Some [(''basemap'', 0)]"
    by (simp add: demo_base_def)
  have k: "map_of [(''basemap'', 0 :: nat)] ''basemap'' = Some 0"
    by simp
  have e: "map_of (rev (imported_entries 0 [demo_importA, demo_importB])) ''basemap'' = Some 1"
    by (simp add: demo_importA_def demo_importB_def importId_def rename_def)
  from C1_base_source_after_merge [OF demo_merge_AB s k] e
  have "map_of [(''basemap'', 1 :: nat), (''terrain-dem'', 2)] ''basemap'' = Some 1"
    by simp
  with demo_merge_AB s k e show ?thesis by blast
qed

theorem C1_counterexample:
  "merge_imports demo_base [demo_importA] =
     Inr \<lparr> sources = Some [(''basemap'', 1)],
           layers = Some [\<lparr>source = Some ''basemap'', props = 1\<rparr>,
                          \<lparr>source = Some ''basemap'', props = 0\<rparr>],
           fog = None, glyphs = None, sprite = None \<rparr>
   \<and> sources demo_base = Some [(''basemap'', 0)]
   \<and> map_of [(''basemap'', 0 :: nat)] ''basemap'' = Some 0
   \<and> map_of [(''basemap'', 1 :: nat)] ''basemap'' = Some 1
   \<and> map_of [(''basemap'', 1 :: nat)] ''basemap'' \<noteq> map_of [(''basemap'', 0)] ''basemap''"
  by (simp add: demo_merge_A) (simp add: demo_base_def)

text \<open>
  C2, as the code has it. Each import prepends its rewritten layers to the layers gathered
  so far, so the merged layer sequence is the rewritten layers of the imports in reverse
  import order (the last import's layers first), followed by the base style's original
  layers. An imported layer keeps its other properties; its \<open>source\<close> is unset when it was
  unset or empty, the import id when it was \<open>composite\<close>, and \<open>id-source\<close> otherwise, where
  the import id is the import's \<open>id\<close>, or its index in decimal when the \<open>id\<close> is empty.
\<close>

theorem C2_layers_after_merge:
  assumes "merge_imports base imps = Inr merged"
    and "layers base = Some bls"
  shows "layers merged = Some (concat (rev (rewritten_layers 0 imps)) @ bls)
    \<and> (\<forall>iid l. props (rewrite_layer iid l) = props l
          \<and> source (rewrite_layer iid l) =
              (case source l of
                 None \<Rightarrow> None
               | Some s \<Rightarrow>
                   if s = [] then None
                   else if s = ''composite'' then Some iid
                   else Some (iid @ ''-'' @ s)))
    \<and> (\<forall>i idx. importId i idx = (if i = [] then toString_nat idx else i))"
proof (intro conjI allI)
  show "layers merged = Some (concat (rev (rewritten_layers 0 imps)) @ bls)"
    using merge_from_layers [OF assms(1) [unfolded merge_imports_def] assms(2)] .
next
  fix iid and l :: "'b layer"
  show "props (rewrite_layer iid l) = props l"
    by (simp add: rewrite_layer_def)
  show "source (rewrite_layer iid l) =
      (case source l of
         None \<Rightarrow> None
       | Some s \<Rightarrow>
           if s = [] then None
           else if s = ''composite'' then Some iid
           else Some (iid @ ''-'' @ s))"
    by (simp add: rewrite_layer_def rewrite_source_def)
next
  fix i idx
  show "importId i idx = (if i = [] then toString_nat idx else i)"
    by (simp add: importId_def)
qed

theorem C2_layers_after_merge_witness:
  "merge_imports demo_base [demo_importA, demo_importB] =
     Inr \<lparr> sources = Some [(''basemap'', 1), (''terrain-dem'', 2)],
           layers = Some [\<lparr>source = None, props = 2\<rparr>,
                          \<lparr>source = Some ''basemap'', props = 1\<rparr>,
                          \<lparr>source = Some ''basemap'', props = 0\<rparr>],
           fog = None, glyphs = None, sprite = None \<rparr>
   \<and> layers demo_base = Some [\<lparr>source = Some ''basemap'', props = 0\<rparr>]
   \<and> concat (rev (rewritten_layers 0 [demo_importA, demo_importB]))
       @ [\<lparr>source = Some ''basemap'', props = 0 :: nat\<rparr>]
     = [\<lparr>source = None, props = 2\<rparr>,
        \<lparr>source = Some ''basemap'', props = 1\<rparr>,
        \<lparr>source = Some ''basemap'', props = 0\<rparr>]"
proof -
  have l: "layers demo_base = Some [\<lparr>source = Some ''basemap'', props = 0\<rparr>]"
    by (simp add: demo_base_def)
  from conjunct1 [OF C2_layers_after_merge [OF demo_merge_AB l]]
  have "concat (rev (rewritten_layers 0 [demo_importA, demo_importB]))
          @ [\<lparr>source = Some ''basemap'', props = 0 :: nat\<rparr>]
        = [\<lparr>source = None, props = 2\<rparr>,
           \<lparr>source = Some ''basemap'', props = 1\<rparr>,
           \<lparr>source = Some ''basemap'', props = 0\<rparr>]"
    by simp
  with demo_merge_AB l show ?thesis by blast
qed

theorem C2_counterexample:
  "merge_imports demo_base [demo_importA, demo_importB] =
     Inr \<lparr> sources = Some [(''basemap'', 1), (''terrain-dem'', 2)],
           layers = Some [\<lparr>source = None, props = 2\<rparr>,
                          \<lparr>source = Some ''basemap'', props = 1\<rparr>,
                          \<lparr>source = Some ''basemap'', props = 0\<rparr>],
           fog = None, glyphs = None, sprite = None \<rparr>
   \<and> layers demo_base = Some [\<lparr>source = Some ''basemap'', props = 0\<rparr>]
   \<and> concat (rewritten_layers 0 [demo_importA, demo_importB])
       @ [\<lparr>source = Some ''basemap'', props = 0 :: nat\<rparr>]
     = [\<lparr>source = Some ''basemap'', props = 1\<rparr>,
        \<lparr>source = None, props = 2\<rparr>,
        \<lparr>source = Some ''basemap'', props = 0\<rparr>]
   \<and> [\<lparr>source = None, props = 2 :: nat\<rparr>,
      \<lparr>source = Some ''basemap'', props = 1\<rparr>,
      \<lparr>source = Some ''basemap'', props = 0\<rparr>]
     \<noteq> concat (rewritten_layers 0 [demo_importA, demo_importB])
         @ [\<lparr>source = Some ''basemap'', props = 0\<rparr>]"
  by (simp add: demo_merge_AB)
    (simp add: demo_base_def demo_importA_def demo_importB_def importId_def
      rewrite_layer_def rewrite_source_def)

section \<open>Validation\<close>

lemma first_error_Cons:
  "first_error (x # xs) = (case x of None \<Rightarrow> first_error xs | Some e \<Rightarrow> Some e)"
  by (cases x) simp_all

lemma first_error_Some_if: "Some e \<in> set xs \<Longrightarrow> first_error xs \<noteq> None"
  by (induction xs rule: first_error.induct) auto

lemma js_gt_Fin [simp]: "js_gt (Fin p) (Fin q) = (q < p)"
  by (simp add: js_gt_def)

lemma renderImage_rejected:
  assumes "validate E p \<noteq> None"
  shows "\<exists>err. renderImage E p tilePath = ([], Inl err)"
  using assms by (auto simp: renderImage_def)

text \<open>
  C3, as the code has it. A request without bounds and without both center and zoom never
  passes validation and never reaches the external renderer. The checks run in order and
  the first failure decides: the error is the one of the style, center, zoom, ratio,
  bearing or pitch check when one of these fails, and otherwise the error saying that
  either center and zoom or bounds must be provided. In particular
  \<open>{style: {}, width: 400, height: 260}\<close> fails with that error.
\<close>

theorem C3_missing_viewport:
  assumes "p_bounds p = None" and "\<not> (p_center p \<noteq> None \<and> p_zoom p \<noteq> None)"
  shows "renderImage E p tilePath =
           ([], Inl (case first_error
                            [ check_style E (p_style p),
                              check_center (the_center E p),
                              check_zoom (the_zoom E p),
                              check_ratio (the_ratio p),
                              check_bearing (p_bearing p),
                              check_pitch (p_pitch p) ] of
                       Some e \<Rightarrow> e
                     | None \<Rightarrow> CenterZoomOrBoundsRequired))
       \<and> renderImage E request_400_260 tilePath = ([], Inl CenterZoomOrBoundsRequired)"
proof
  have b: "the_bounds E p = None"
    using assms(1) by (simp add: the_bounds_def)
  have r: "check_required (the_center E p) (the_zoom E p) None
             = Some CenterZoomOrBoundsRequired"
    using assms(2) by (auto simp: check_required_def the_center_def the_zoom_def)
  have "validate E p =
          Some (case first_error
                            [ check_style E (p_style p),
                              check_center (the_center E p),
                              check_zoom (the_zoom E p),
                              check_ratio (the_ratio p),
                              check_bearing (p_bearing p),
                              check_pitch (p_pitch p) ] of
                       Some e \<Rightarrow> e
                     | None \<Rightarrow> CenterZoomOrBoundsRequired)"
    unfolding validate_def b r
    by (simp add: first_error_Cons check_bounds_def check_padding_def
        del: first_error.simps(2,3) split: option.splits)
  then show "renderImage E p tilePath =
           ([], Inl (case first_error
                            [ check_style E (p_style p),
                              check_center (the_center E p),
                              check_zoom (the_zoom E p),
                              check_ratio (the_ratio p),
                              check_bearing (p_bearing p),
                              check_pitch (p_pitch p) ] of
                       Some e \<Rightarrow> e
                     | None \<Rightarrow> CenterZoomOrBoundsRequired))"
    by (simp add: renderImage_def)
  show "renderImage E request_400_260 tilePath = ([], Inl CenterZoomOrBoundsRequired)"
    by (simp add: renderImage_def validate_def request_400_260_def check_style_def
        decode_style_def the_center_def the_zoom_def the_bounds_def the_ratio_def
        the_padding_def check_center_def check_zoom_def check_ratio_def check_bounds_def
        check_padding_def check_bearing_def check_pitch_def check_required_def
        truthy_num_def)
qed

theorem C3_missing_viewport_witness:
  "p_bounds request_zoom_30 = None
   \<and> p_center request_zoom_30 = None
   \<and> renderImage demo_env request_zoom_30 (Some ''/app/tiles'') = ([], Inl (ZoomOutside (Fin 30)))
   \<and> renderImage demo_env request_400_260 None = ([], Inl CenterZoomOrBoundsRequired)"
proof -
  have b: "p_bounds request_zoom_30 = None" and c: "p_center request_zoom_30 = None"
    by (simp_all add: request_zoom_30_def request_400_260_def)
  from c have nc: "\<not> (p_center request_zoom_30 \<noteq> None \<and> p_zoom request_zoom_30 \<noteq> None)"
    by simp
  have "renderImage demo_env request_zoom_30 (Some ''/app/tiles'') = ([], Inl (ZoomOutside (Fin 30)))"
    using conjunct1 [OF C3_missing_viewport [OF b nc, of demo_env "Some ''/app/tiles''"]]
    by (simp add: request_zoom_30_def request_400_260_def check_style_def decode_style_def
        the_center_def the_zoom_def decode_zoom_def check_center_def check_zoom_def)
  moreover have "renderImage demo_env request_400_260 None = ([], Inl CenterZoomOrBoundsRequired)"
    using conjunct2 [OF C3_missing_viewport [OF b nc, of demo_env None]] .
  ultimately show ?thesis using b c by simp
qed

theorem C3_counterexample:
  "p_bounds request_zoom_30 = None
   \<and> p_center request_zoom_30 = None
   \<and> renderImage demo_env request_zoom_30 None = ([], Inl (ZoomOutside (Fin 30)))
   \<and> renderImage demo_env request_zoom_30 None \<noteq> ([], Inl CenterZoomOrBoundsRequired)"
  by (simp add: request_zoom_30_def request_400_260_def renderImage_def validate_def
      check_style_def decode_style_def the_center_def the_zoom_def decode_zoom_def
      check_center_def check_zoom_def)

text \<open>
  C7. For a bounds value of exactly four entries \<open>[w, s, e, n]\<close> the bounds check of the
  validator rejects it if and only if \<open>w\<close> equals \<open>e\<close>, or \<open>s\<close> equals \<open>n\<close>, or one of the four
  is not finite. A request carrying a rejected value fails before the renderer is called;
  the bounds test that \<open>render\<close> repeats accepts every value of four entries.
  \<open>[10, 10, 10, 20]\<close> is rejected and \<open>[10, 10, 20, 20]\<close> is accepted.
\<close>

theorem C7_bounds_rule:
  "(check_bounds (Some [w, s, e, n]) \<noteq> None \<longleftrightarrow>
      w = e \<or> s = n \<or> \<not> isFinite w \<or> \<not> isFinite s \<or> \<not> isFinite e \<or> \<not> isFinite n)
   \<and> (\<forall>E p tilePath. the_bounds E p = Some [w, s, e, n]
          \<and> check_bounds (Some [w, s, e, n]) \<noteq> None \<longrightarrow>
        (\<exists>err. renderImage E p tilePath = ([], Inl err)))
   \<and> check_bounds_render (Some [w, s, e, n]) = None
   \<and> check_bounds (Some [Fin 10, Fin 10, Fin 10, Fin 20]) = Some BoundsWestEastSame
   \<and> check_bounds (Some [Fin 10, Fin 10, Fin 20, Fin 20]) = None"
proof (intro conjI allI impI)
  show "check_bounds (Some [w, s, e, n]) \<noteq> None \<longleftrightarrow>
      w = e \<or> s = n \<or> \<not> isFinite w \<or> \<not> isFinite s \<or> \<not> isFinite e \<or> \<not> isFinite n"
    by (cases w; cases s; cases e; cases n) (simp_all add: check_bounds_def js_eq_def)
next
  fix E :: "'a env" and p :: "'a params" and tilePath
  assume h: "the_bounds E p = Some [w, s, e, n] \<and> check_bounds (Some [w, s, e, n]) \<noteq> None"
  then obtain err where "check_bounds (the_bounds E p) = Some err" by auto
  then have "validate E p \<noteq> None"
    unfolding validate_def by (intro first_error_Some_if [of err]) simp
  then show "\<exists>err. renderImage E p tilePath = ([], Inl err)"
    by (rule renderImage_rejected)
next
  show "check_bounds_render (Some [w, s, e, n]) = None"
    by (simp add: check_bounds_render_def)
  show "check_bounds (Some [Fin 10, Fin 10, Fin 10, Fin 20]) = Some BoundsWestEastSame"
    by (simp add: check_bounds_def js_eq_def)
  show "check_bounds (Some [Fin 10, Fin 10, Fin 20, Fin 20]) = None"
    by (simp add: check_bounds_def js_eq_def)
qed

theorem C7_bounds_rule_witness:
  "check_bounds (Some [Fin 10, Fin 10, Fin 10, Fin 20]) \<noteq> None
   \<and> check_bounds (Some [Fin 10, NaN, Fin 20, Fin 20]) \<noteq> None
   \<and> check_bounds (Some [Fin 10, Fin 10, Fin 20, Fin 20]) = None
   \<and> renderImage demo_env (request_bounds [Fin 10, Fin 10, Fin 10, Fin 20]) None
       = ([], Inl BoundsWestEastSame)
   \<and> fst (renderImage demo_env (request_bounds [Fin 10, Fin 10, Fin 20, Fin 20]) None)
       = [\<lparr> rc_style = demo_style, rc_zoom = Some (Fin 8), rc_center = Some [Fin 15, Fin 15],
            rc_height = 260, rc_width = 400, rc_bearing = None, rc_pitch = None \<rparr>]"
proof -
  have 1: "check_bounds (Some [Fin 10, Fin 10, Fin 10, Fin 20]) \<noteq> None"
    using conjunct1 [OF C7_bounds_rule [of "Fin 10" "Fin 10" "Fin 10" "Fin 20"]] by simp
  have 2: "check_bounds (Some [Fin 10, NaN, Fin 20, Fin 20]) \<noteq> None"
    using conjunct1 [OF C7_bounds_rule [of "Fin 10" NaN "Fin 20" "Fin 20"]] by simp
  have 3: "check_bounds (Some [Fin 10, Fin 10, Fin 20, Fin 20]) = None"
    using conjunct1 [OF C7_bounds_rule [of "Fin 10" "Fin 10" "Fin 20" "Fin 20"]] by simp
  have 4: "renderImage demo_env (request_bounds [Fin 10, Fin 10, Fin 10, Fin 20]) None
       = ([], Inl BoundsWestEastSame)"
    by code_simp
  have 5: "fst (renderImage demo_env (request_bounds [Fin 10, Fin 10, Fin 20, Fin 20]) None)
       = [\<lparr> rc_style = demo_style, rc_zoom = Some (Fin 8), rc_center = Some [Fin 15, Fin 15],
            rc_height = 260, rc_width = 400, rc_bearing = None, rc_pitch = None \<rparr>]"
    by code_simp
  from 1 2 3 4 5 show ?thesis by blast
qed

text \<open>
  C8. For a center value of exactly two entries \<open>[lon, lat]\<close> the center check of the
  validator accepts it if and only if both are finite, \<open>|lon| \<le> 180\<close> and \<open>|lat| \<le> 90\<close>.
  A request carrying a rejected value fails before the renderer is called, and the center
  test that \<open>render\<close> repeats accepts whatever the validator accepted. The values 180, -180,
  90 and -90 are accepted and 180.0001 is rejected.
\<close>

theorem C8_center_rule:
  "(check_center (Some [lon, lat]) = None \<longleftrightarrow>
      (\<exists>x y. lon = Fin x \<and> lat = Fin y \<and> \<bar>x\<bar> \<le> 180 \<and> \<bar>y\<bar> \<le> 90))
   \<and> (\<forall>E p tilePath. the_center E p = Some [lon, lat]
          \<and> check_center (Some [lon, lat]) \<noteq> None \<longrightarrow>
        (\<exists>err. renderImage E p tilePath = ([], Inl err)))
   \<and> (check_center (Some [lon, lat]) = None \<longrightarrow> check_center_render (Some [lon, lat]) = None)
   \<and> check_center (Some [Fin 180, Fin 90]) = None
   \<and> check_center (Some [Fin (- 180), Fin (- 90)]) = None
   \<and> check_center (Some [Fin (1800001 / 10000), Fin 0])
        = Some (CenterLongitudeOutside (Fin (1800001 / 10000)))"
proof (intro conjI allI impI)
  show "check_center (Some [lon, lat]) = None \<longleftrightarrow>
      (\<exists>x y. lon = Fin x \<and> lat = Fin y \<and> \<bar>x\<bar> \<le> 180 \<and> \<bar>y\<bar> \<le> 90)"
    by (cases lon; cases lat) (auto simp: check_center_def)
next
  fix E :: "'a env" and p :: "'a params" and tilePath
  assume h: "the_center E p = Some [lon, lat] \<and> check_center (Some [lon, lat]) \<noteq> None"
  then obtain err where "check_center (the_center E p) = Some err" by auto
  then have "validate E p \<noteq> None"
    unfolding validate_def by (intro first_error_Some_if [of err]) simp
  then show "\<exists>err. renderImage E p tilePath = ([], Inl err)"
    by (rule renderImage_rejected)
next
  assume a: "check_center (Some [lon, lat]) = None"
  have "check_center (Some [lon, lat]) = None \<longrightarrow> check_center_render (Some [lon, lat]) = None"
    by (cases lon; cases lat) (auto simp: check_center_def check_center_render_def)
  with a show "check_center_render (Some [lon, lat]) = None"
    by simp
next
  show "check_center (Some [Fin 180, Fin 90]) = None"
    by (simp add: check_center_def)
  show "check_center (Some [Fin (- 180), Fin (- 90)]) = None"
    by (simp add: check_center_def)
  show "check_center (Some [Fin (1800001 / 10000), Fin 0])
        = Some (CenterLongitudeOutside (Fin (1800001 / 10000)))"
    by (simp add: check_center_def)
qed

theorem C8_center_rule_witness:
  "check_center (Some [Fin 7, Fin 45]) = None
   \<and> check_center_render (Some [Fin 7, Fin 45]) = None
   \<and> check_center (Some [Fin 7, PosInf]) \<noteq> None
   \<and> the_center demo_env (request_center [Fin (1800001 / 10000), Fin 0])
       = Some [Fin (1800001 / 10000), Fin 0]
   \<and> renderImage demo_env (request_center [Fin (1800001 / 10000), Fin 0]) None
       = ([], Inl (CenterLongitudeOutside (Fin (1800001 / 10000))))
   \<and> fst (renderImage demo_env (request_center [Fin 180, Fin (- 90)]) None)
       = [\<lparr> rc_style = demo_style, rc_zoom = Some (Fin 5), rc_center = Some [Fin 180, Fin (- 90)],
            rc_height = 260, rc_width = 400, rc_bearing = None, rc_pitch = None \<rparr>]"
proof -
  note t = C8_center_rule [of "Fin 7" "Fin 45"]
  have 1: "check_center (Some [Fin 7, Fin 45]) = None"
    using conjunct1 [OF t] by simp
  have 2: "check_center_render (Some [Fin 7, Fin 45]) = None"
    using conjunct1 [OF conjunct2 [OF conjunct2 [OF t]]] 1 by simp
  have 3: "check_center (Some [Fin 7, PosInf]) \<noteq> None"
    using conjunct1 [OF C8_center_rule [of "Fin 7" PosInf]] by simp
  have 4: "the_center demo_env (request_center [Fin (1800001 / 10000), Fin 0])
       = Some [Fin (1800001 / 10000), Fin 0]"
    by (simp add: the_center_def request_center_def request_400_260_def decode_list_def)
  have 5: "renderImage demo_env (request_center [Fin (1800001 / 10000), Fin 0]) None
       = ([], Inl (CenterLongitudeOutside (Fin (1800001 / 10000))))"
    by code_simp
  have 6: "fst (renderImage demo_env (request_center [Fin 180, Fin (- 90)]) None)
       = [\<lparr> rc_style = demo_style, rc_zoom = Some (Fin 5), rc_center = Some [Fin 180, Fin (- 90)],
            rc_height = 260, rc_width = 400, rc_bearing = None, rc_pitch = None \<rparr>]"
    by code_simp
  from 1 2 3 4 5 6 show ?thesis by blast
qed

section \<open>The resource fetcher\<close>

text \<open>
  C6. When the server answers a tile fetch with status 204 or 404 the callback receives no
  error and \<open>null\<close> data; with any other status outside 200 to 299 it receives an error.
  An asset fetch (source, glyph, sprite image, sprite JSON, image source) answered with a
  status outside 200 to 299 gives an error, and an asset fetch never gives \<open>null\<close> data.
\<close>

theorem C6_status_policy:
  assumes "fetch E u = Inr res"
  shows "(status res = 204 \<or> status res = 404 \<longrightarrow> getRemoteTile E u = Inr None)
    \<and> (\<not> ok res \<and> status res \<noteq> 404 \<longrightarrow>
          getRemoteTile E u = Inl (RemoteTileFailed u (status res)))
    \<and> (\<not> ok res \<longrightarrow> getRemoteAsset E u = Inl (RemoteAssetFailed u (status res)))
    \<and> (\<not> isMapboxURL u \<longrightarrow> requestHandler E u 3 = getRemoteTile E u)
    \<and> (\<forall>kind \<in> {2, 4, 5, 6, 7}. \<not> isMapboxURL u \<longrightarrow>
          requestHandler E u kind = map_sum (\<lambda>e. e) Some (getRemoteAsset E u)
          \<and> requestHandler E u kind \<noteq> Inr None)"
  using assms
  by (auto simp: getRemoteTile_def getRemoteAsset_def tile_response_def asset_response_def
      requestHandler_def ok_def split: option.splits sum.splits)

theorem C6_status_policy_witness:
  "getRemoteTile (env_status 404) ''https://t.example/1/2/3.pbf'' = Inr None
   \<and> getRemoteTile (env_status 204) ''https://t.example/1/2/3.pbf'' = Inr None
   \<and> getRemoteTile (env_status 500) ''https://t.example/1/2/3.pbf''
       = Inl (RemoteTileFailed ''https://t.example/1/2/3.pbf'' 500)
   \<and> getRemoteAsset (env_status 404) ''https://t.example/sprite.png''
       = Inl (RemoteAssetFailed ''https://t.example/sprite.png'' 404)
   \<and> requestHandler (env_status 404) ''https://t.example/1/2/3.pbf'' 3 = Inr None
   \<and> requestHandler (env_status 404) ''https://t.example/sprite.png'' 5
       = Inl (RemoteAssetFailed ''https://t.example/sprite.png'' 404)"
proof -
  have f: "fetch (env_status n) u
      = Inr \<lparr> status = n, body = Some [1, 2, 3], h_etag = None,
              h_last_modified = None, h_expires = None \<rparr>" for n u
    by (simp add: env_status_def)
  have m: "\<not> isMapboxURL ''https://t.example/1/2/3.pbf''"
    "\<not> isMapboxURL ''https://t.example/sprite.png''"
    by (simp_all add: isMapboxURL_def)
  note t404 = C6_status_policy [OF f, of 404 "''https://t.example/1/2/3.pbf''"]
  note t204 = C6_status_policy [OF f, of 204 "''https://t.example/1/2/3.pbf''"]
  note t500 = C6_status_policy [OF f, of 500 "''https://t.example/1/2/3.pbf''"]
  note a404 = C6_status_policy [OF f, of 404 "''https://t.example/sprite.png''"]
  have 1: "getRemoteTile (env_status 404) ''https://t.example/1/2/3.pbf'' = Inr None"
    using t404 by simp
  have 2: "getRemoteTile (env_status 204) ''https://t.example/1/2/3.pbf'' = Inr None"
    using t204 by simp
  have 3: "getRemoteTile (env_status 500) ''https://t.example/1/2/3.pbf''
       = Inl (RemoteTileFailed ''https://t.example/1/2/3.pbf'' 500)"
    using t500 by (simp add: ok_def)
  have 4: "getRemoteAsset (env_status 404) ''https://t.example/sprite.png''
       = Inl (RemoteAssetFailed ''https://t.example/sprite.png'' 404)"
    using a404 by (simp add: ok_def)
  have 5: "requestHandler (env_status 404) ''https://t.example/1/2/3.pbf'' 3 = Inr None"
    using t404 m 1 by simp
  have 6: "requestHandler (env_status 404) ''https://t.example/sprite.png'' 5
       = Inl (RemoteAssetFailed ''https://t.example/sprite.png'' 404)"
    using a404 m 4 by simp
  from 1 2 3 4 5 6 show ?thesis by blast
qed

section \<open>The viewport\<close>

lemma render_call_viewport:
  assumes "render E style width height opts = (calls, r)" and "call \<in> set calls"
  shows "rc_zoom call = fst (resolve_viewport E opts width height)
       \<and> rc_center call = snd (resolve_viewport E opts width height)"
  using assms
  by (auto simp: render_def Let_def split: option.splits sum.splits if_splits)

lemma demo_render_bounds:
  "render demo_env (Some demo_style) 400 260 options_bounds =
     ([\<lparr> rc_style = demo_style, rc_zoom = Some (Fin 8), rc_center = Some [Fin 15, Fin 15],
          rc_height = 260, rc_width = 400, rc_bearing = None, rc_pitch = None \<rparr>],
      Inr [127, 63, 0, 200, 0, 0, 0, 0])"
  by code_simp

lemma demo_render_center_zoom:
  "render demo_env (Some demo_style) 400 260 options_center_zoom =
     ([\<lparr> rc_style = demo_style, rc_zoom = Some (Fin 5), rc_center = Some [Fin 7, Fin 45],
          rc_height = 260, rc_width = 400, rc_bearing = None, rc_pitch = None \<rparr>],
      Inr [127, 63, 0, 200, 0, 0, 0, 0])"
  by code_simp

text \<open>
  C5. Whenever \<open>render\<close> calls the external renderer: if bounds is supplied and center or
  zoom is missing, the zoom it passes is the zoom of the fit of the bounds into
  \<open>(width - 2 * padding, height - 2 * padding)\<close> minus 1, or 0 when that is less than 0, and
  the center it passes is the center of that fit; if both center and zoom are supplied,
  it passes them unchanged. The last part spells out ``minus 1, at least 0'' for a finite
  fitted zoom in arithmetic without rounding.
\<close>

theorem C5_viewport:
  assumes "render E style width height opts = (calls, r)" and "call \<in> set calls"
  shows "(\<forall>b. o_bounds opts = Some b \<and> (o_zoom opts = None \<or> o_center opts = None) \<longrightarrow>
            rc_zoom call =
              Some (js_max (fl_sub (ar E)
                      (fst (viewport E b (width - 2 * o_padding opts, height - 2 * o_padding opts)))
                      (Fin 1)) (Fin 0))
          \<and> rc_center call =
              Some (snd (viewport E b (width - 2 * o_padding opts, height - 2 * o_padding opts))))
       \<and> (\<forall>z c. o_zoom opts = Some z \<and> o_center opts = Some c \<longrightarrow>
            rc_zoom call = Some z \<and> rc_center call = Some c)
       \<and> (\<forall>q. js_max (fl_sub exact_arith (Fin q) (Fin 1)) (Fin 0) = Fin (max (q - 1) 0))"
proof (intro conjI allI impI)
  note vp = render_call_viewport [OF assms]
  fix b assume h: "o_bounds opts = Some b \<and> (o_zoom opts = None \<or> o_center opts = None)"
  then have "resolve_viewport E opts width height =
      (Some (js_max (fl_sub (ar E)
                      (fst (viewport E b (width - 2 * o_padding opts, height - 2 * o_padding opts)))
                      (Fin 1)) (Fin 0)),
       Some (snd (viewport E b (width - 2 * o_padding opts, height - 2 * o_padding opts))))"
    by (auto simp: resolve_viewport_def Let_def)
  with vp show "rc_zoom call =
              Some (js_max (fl_sub (ar E)
                      (fst (viewport E b (width - 2 * o_padding opts, height - 2 * o_padding opts)))
                      (Fin 1)) (Fin 0))"
    and "rc_center call =
              Some (snd (viewport E b (width - 2 * o_padding opts, height - 2 * o_padding opts)))"
    by simp_all
next
  note vp = render_call_viewport [OF assms]
  fix z c assume h: "o_zoom opts = Some z \<and> o_center opts = Some c"
  then have "resolve_viewport E opts width height = (Some z, Some c)"
    by (auto simp: resolve_viewport_def split: option.splits)
  with vp show "rc_zoom call = Some z" and "rc_center call = Some c"
    by simp_all
next
  fix q :: rat
  show "js_max (fl_sub exact_arith (Fin q) (Fin 1)) (Fin 0) = Fin (max (q - 1) 0)"
    by (auto simp: exact_arith_def js_max_def)
qed

theorem C5_viewport_witness:
  "render demo_env (Some demo_style) 400 260 options_bounds =
     ([\<lparr> rc_style = demo_style, rc_zoom = Some (Fin 8), rc_center = Some [Fin 15, Fin 15],
          rc_height = 260, rc_width = 400, rc_bearing = None, rc_pitch = None \<rparr>],
      Inr [127, 63, 0, 200, 0, 0, 0, 0])
   \<and> o_bounds options_bounds = Some [Fin 10, Fin 10, Fin 20, Fin 20]
   \<and> o_zoom options_bounds = None
   \<and> viewport demo_env [Fin 10, Fin 10, Fin 20, Fin 20] (400 - 2 * 0, 260 - 2 * 0)
       = (Fin 9, [Fin 15, Fin 15])
   \<and> js_max (fl_sub (ar demo_env) (Fin 9) (Fin 1)) (Fin 0) = Fin 8
   \<and> render demo_env (Some demo_style) 400 260 options_center_zoom =
     ([\<lparr> rc_style = demo_style, rc_zoom = Some (Fin 5), rc_center = Some [Fin 7, Fin 45],
          rc_height = 260, rc_width = 400, rc_bearing = None, rc_pitch = None \<rparr>],
      Inr [127, 63, 0, 200, 0, 0, 0, 0])
   \<and> o_zoom options_center_zoom = Some (Fin 5)
   \<and> o_center options_center_zoom = Some [Fin 7, Fin 45]"
proof -
  have b: "o_bounds options_bounds = Some [Fin 10, Fin 10, Fin 20, Fin 20]"
    and z: "o_zoom options_bounds = None" and pad: "o_padding options_bounds = 0"
    by (simp_all add: options_bounds_def)
  have v: "viewport demo_env [Fin 10, Fin 10, Fin 20, Fin 20] (400 - 2 * 0, 260 - 2 * 0)
       = (Fin 9, [Fin 15, Fin 15])"
    by (simp add: demo_env_def)
  have "rc_zoom \<lparr> rc_style = demo_style, rc_zoom = Some (Fin 8), rc_center = Some [Fin 15, Fin 15],
          rc_height = 260, rc_width = 400, rc_bearing = None, rc_pitch = None \<rparr>
        = Some (js_max (fl_sub (ar demo_env)
            (fst (viewport demo_env [Fin 10, Fin 10, Fin 20, Fin 20]
                    (400 - 2 * o_padding options_bounds, 260 - 2 * o_padding options_bounds)))
            (Fin 1)) (Fin 0))"
    using conjunct1 [OF C5_viewport [OF demo_render_bounds]] b z by simp
  then have m: "js_max (fl_sub (ar demo_env) (Fin 9) (Fin 1)) (Fin 0) = Fin 8"
    using v pad by simp
  have cz: "o_zoom options_center_zoom = Some (Fin 5)"
    "o_center options_center_zoom = Some [Fin 7, Fin 45]"
    by (simp_all add: options_center_zoom_def)
  from demo_render_bounds b z v m demo_render_center_zoom cz show ?thesis by blast
qed

section \<open>Local tile archives\<close>

lemma lazy_tail_run:
  "name \<noteq> [] \<Longrightarrow> \<forall>c \<in> set name. \<not> is_space c \<Longrightarrow> is_delim d \<Longrightarrow> lazy_tail (name @ d # post)"
proof (induction name)
  case Nil
  then show ?case by simp
next
  case (Cons c name)
  show ?case
  proof (cases name)
    case Nil
    with Cons.prems show ?thesis by simp
  next
    case (Cons c' rest)
    with Cons.IH Cons.prems have "lazy_tail (name @ d # post)" by simp
    with Cons Cons.prems show ?thesis by simp
  qed
qed

lemma lazy_tail_split:
  "lazy_tail t \<Longrightarrow>
   \<exists>name d post. t = name @ d # post \<and> name \<noteq> [] \<and> (\<forall>c \<in> set name. \<not> is_space c) \<and> is_delim d"
proof (induction t)
  case Nil
  then show ?case by simp
next
  case (Cons c cs)
  then obtain d ds where cs: "cs = d # ds" and c: "\<not> is_space c"
    and alt: "is_delim d \<or> lazy_tail cs"
    by (cases cs) auto
  show ?case
  proof (cases "is_delim d")
    case True
    have "c # cs = [c] @ d # ds \<and> [c] \<noteq> [] \<and> (\<forall>x \<in> set [c]. \<not> is_space x) \<and> is_delim d"
      using c True by (simp add: cs)
    then show ?thesis by blast
  next
    case False
    with alt Cons.IH obtain name d' post where
      "cs = name @ d' # post" "name \<noteq> []" "\<forall>c \<in> set name. \<not> is_space c" "is_delim d'"
      by blast
    then have "c # cs = (c # name) @ d' # post \<and> c # name \<noteq> []
        \<and> (\<forall>x \<in> set (c # name). \<not> is_space x) \<and> is_delim d'"
      using c by simp
    then show ?thesis by blast
  qed
qed

lemma mbtiles_match_append: "mbtiles_match t \<Longrightarrow> mbtiles_match (pre @ t)"
  by (induction pre) auto

lemma mbtiles_match_here: "match_here t \<Longrightarrow> mbtiles_match t"
  by (cases t) (auto simp: match_here_def)

lemma mbtiles_match_split: "mbtiles_match s \<Longrightarrow> \<exists>pre t. s = pre @ t \<and> match_here t"
proof (induction s)
  case Nil
  then show ?case by simp
next
  case (Cons c cs)
  show ?case
  proof (cases "match_here (c # cs)")
    case True
    then have "c # cs = [] @ (c # cs) \<and> match_here (c # cs)" by simp
    then show ?thesis by blast
  next
    case False
    with Cons obtain pre t where "cs = pre @ t" "match_here t" by auto
    then have "c # cs = (c # pre) @ t \<and> match_here t" by simp
    then show ?thesis by blast
  qed
qed

lemma mbtiles_match_imp_reference:
  assumes "mbtiles_match s"
  shows "mbtiles_reference s"
proof -
  from assms obtain pre t where s: "s = pre @ t" and t: "match_here t"
    using mbtiles_match_split by blast
  define scheme where "scheme = take 10 t"
  from t have sch: "map lower_ascii scheme = ''mbtiles://''" and lt: "lazy_tail (drop 10 t)"
    unfolding scheme_def match_here_def by blast+
  from lazy_tail_split [OF lt] obtain name d post where
    r: "drop 10 t = name @ d # post" and n: "name \<noteq> []"
    and sp: "\<forall>c \<in> set name. \<not> is_space c" and d: "is_delim d"
    by blast
  have "t = scheme @ drop 10 t"
    unfolding scheme_def by simp
  then have "s = pre @ scheme @ name @ d # post"
    unfolding s r by simp
  then show ?thesis
    unfolding mbtiles_reference_def using sch n sp d by (intro exI conjI)
qed

lemma mbtiles_reference_imp_match:
  assumes "mbtiles_reference s"
  shows "mbtiles_match s"
proof -
  from assms obtain pre scheme name d post where
    s: "s = pre @ scheme @ name @ d # post" and sch: "map lower_ascii scheme = ''mbtiles://''"
    and n: "name \<noteq> []" and sp: "\<forall>c \<in> set name. \<not> is_space c" and d: "is_delim d"
    unfolding mbtiles_reference_def by (elim exE conjE)
  have "length (map lower_ascii scheme) = length ''mbtiles://''"
    by (simp only: sch)
  then have len: "length scheme = 10" by simp
  have tk: "take 10 (scheme @ name @ d # post) = scheme"
    and dr: "drop 10 (scheme @ name @ d # post) = name @ d # post"
    using len by simp_all
  have "match_here (scheme @ name @ d # post)"
    unfolding match_here_def tk dr using sch lazy_tail_run [OF n sp d] by (intro conjI)
  then have "mbtiles_match (scheme @ name @ d # post)"
    by (rule mbtiles_match_here)
  then show ?thesis
    unfolding s by (rule mbtiles_match_append)
qed


lemma demo_reference:
  "mbtiles_reference (JSON_stringify env_mbtiles demo_style)"
proof -
  have "JSON_stringify env_mbtiles demo_style =
          (''{'' @ [CHR 0x22] @ ''url'' @ [CHR 0x22] @ '':'' @ [CHR 0x22])
          @ ''mbtiles://'' @ ''foo'' @ CHR ''/'' # (''1/2/3'' @ [CHR 0x22] @ ''}'')"
    by (simp add: env_mbtiles_def)
  moreover have "map lower_ascii ''mbtiles://'' = ''mbtiles://''"
    by (simp add: lower_ascii_def)
  moreover have "\<forall>c \<in> set ''foo''. \<not> is_space c"
    by (simp add: is_space_def)
  moreover have "is_delim CHR ''/''" and "''foo'' \<noteq> []"
    by (simp_all add: is_delim_def)
  ultimately show ?thesis
    unfolding mbtiles_reference_def by (intro exI conjI)
qed

text \<open>
  C9. When the checks at the head of \<open>render\<close> pass and the imports are fetched and merged,
  and the JSON text of the merged style contains \<open>mbtiles://\<close> (in any letter case)
  followed by a non-empty run without white space and then \<open>/\<close> or \<open>"\<close>, \<open>render\<close> fails with
  \<open>Local mbtiles not supported!\<close> and the external renderer is not called, whatever the
  \<open>tilePath\<close> option holds.
\<close>

theorem C9_local_tiles_rejected:
  assumes "render_checks width height opts = None"
    and "corrected_style E style opts = Inr merged"
    and "mbtiles_reference (JSON_stringify E merged)"
  shows "render E (Some style) width height (opts\<lparr>o_tilePath := tilePath\<rparr>)
           = ([], Inl LocalMbtilesNotSupported)"
proof -
  have c: "render_checks width height (opts\<lparr>o_tilePath := tilePath\<rparr>) = None"
    using assms(1) by (simp add: render_checks_def)
  have m: "corrected_style E style (opts\<lparr>o_tilePath := tilePath\<rparr>) = Inr merged"
    using assms(2) by (auto simp: corrected_style_def split: option.splits)
  have "mbtiles_match (JSON_stringify E merged)"
    using assms(3) by (rule mbtiles_reference_imp_match)
  with c m show ?thesis by (simp add: render_def)
qed

theorem C9_local_tiles_rejected_witness:
  "render_checks 400 260 options_bounds = None
   \<and> corrected_style env_mbtiles demo_style options_bounds = Inr demo_style
   \<and> mbtiles_reference (JSON_stringify env_mbtiles demo_style)
   \<and> render env_mbtiles (Some demo_style) 400 260 (options_bounds\<lparr>o_tilePath := Some ''/app/tiles''\<rparr>)
       = ([], Inl LocalMbtilesNotSupported)
   \<and> render env_mbtiles (Some demo_style) 400 260 (options_bounds\<lparr>o_tilePath := None\<rparr>)
       = ([], Inl LocalMbtilesNotSupported)"
proof -
  have c: "render_checks 400 260 options_bounds = None"
    by code_simp
  have m: "corrected_style env_mbtiles demo_style options_bounds = Inr demo_style"
    by (simp add: corrected_style_def options_bounds_def)
  note t = C9_local_tiles_rejected [OF c m demo_reference]
  from c m demo_reference t [of "Some ''/app/tiles''"] t [of None] show ?thesis
    by blast
qed

section \<open>Icons\<close>

lemma split_from_no_sep:
  "sep \<noteq> [] \<Longrightarrow> \<not> sublist sep s \<Longrightarrow> split_from sep acc s = [rev acc @ s]"
proof (induction s arbitrary: acc)
  case Nil
  then show ?case by simp
next
  case (Cons c cs)
  from Cons.prems(2) have np: "\<not> prefix sep (c # cs)" and ns: "\<not> sublist sep cs"
    unfolding sublist_Cons_right by simp_all
  have "split_from sep acc (c # cs) = split_from sep (c # acc) cs"
    using np by (simp only: split_from.simps if_False simp_thms)
  also have "\<dots> = [rev (c # acc) @ cs]"
    using Cons.prems(1) ns by (rule Cons.IH)
  finally show ?case by simp
qed

lemma icon_bytes_no_payload:
  assumes "prefix ''data:'' u" and "\<not> sublist ''base64,'' u"
  shows "icon_bytes E u = Inl TypeError"
  using assms split_from_no_sep [of "''base64,''" u "[]"]
  by (simp add: icon_bytes_def js_split_def at_index_def)


text \<open>
  C10. An icon whose url begins with \<open>data:\<close> and does not contain \<open>base64,\<close> makes
  \<open>loadImage\<close> throw: the split at \<open>base64,\<close> has no second piece, so there is nothing to
  decode. \<open>loadImages\<close> then fails as a whole, and so does every call of \<open>render\<close> and of
  \<open>renderImage\<close> whose images contain that icon; the external renderer is not called.
\<close>

theorem C10_data_url_without_base64:
  assumes "url img = Some u" and "prefix ''data:'' u" and "\<not> sublist ''base64,'' u"
    and "(i, img) \<in> set imgs"
  shows "loadImage E i img = Some (ErrorLoadingIconImage i TypeError)
    \<and> loadImages E (Some imgs) \<noteq> None
    \<and> (\<forall>style width height opts. o_images opts = Some imgs \<longrightarrow>
          (\<exists>e. render E style width height opts = ([], Inl e)))
    \<and> (\<forall>p tilePath. p_images p = Some imgs \<longrightarrow>
          (\<exists>e. renderImage E p tilePath = ([], Inl e)))"
proof -
  from assms(2) have "u \<noteq> []" by auto
  with assms(1) icon_bytes_no_payload [OF assms(2,3), of E]
  have one: "loadImage E i img = Some (ErrorLoadingIconImage i TypeError)"
    by (simp add: loadImage_def)
  have "Some (ErrorLoadingIconImage i TypeError) \<in> set (map (\<lambda>(i, img). loadImage E i img) imgs)"
    using assms(4) one by force
  then have all: "loadImages E (Some imgs) \<noteq> None"
    by (simp add: loadImages_def first_error_Some_if)
  have r: "\<exists>e. render E style width height opts = ([], Inl e)"
    if "o_images opts = Some imgs" for style width height opts
  proof -
    from all that have "loadImages E (o_images opts) \<noteq> None" by simp
    then obtain e where "loadImages E (o_images opts) = Some e" by blast
    then show ?thesis
      by (simp add: render_def Let_def split: option.splits sum.splits)
  qed
  have "\<exists>e. renderImage E p tilePath = ([], Inl e)" if "p_images p = Some imgs" for p tilePath
  proof (cases "validate E p")
    case None
    have "o_images (options_of E p tilePath) = Some imgs"
      using that by (simp add: options_of_def)
    from r [OF this] obtain e where
      "render E (the_style E p) (p_width p) (p_height p) (options_of E p tilePath) = ([], Inl e)"
      by blast
    with None show ?thesis by (simp add: renderImage_def)
  next
    case (Some e)
    then show ?thesis by (simp add: renderImage_def)
  qed
  with one all r show ?thesis by blast
qed


theorem C10_data_url_without_base64_witness:
  "url demo_icon = Some ''data:image/png,AAAA''
   \<and> prefix ''data:'' ''data:image/png,AAAA''
   \<and> \<not> sublist ''base64,'' ''data:image/png,AAAA''
   \<and> loadImage demo_env ''pin'' demo_icon = Some (ErrorLoadingIconImage ''pin'' TypeError)
   \<and> loadImages demo_env (Some [(''pin'', demo_icon)]) \<noteq> None
   \<and> render demo_env (Some demo_style) 400 260 (options_bounds\<lparr>o_images := Some [(''pin'', demo_icon)]\<rparr>)
       = ([], Inl (ErrorLoadingIconImage ''pin'' TypeError))"
proof -
  have u: "url demo_icon = Some ''data:image/png,AAAA''"
    by (simp add: demo_icon_def)
  have p: "prefix ''data:'' ''data:image/png,AAAA''"
    by simp
  have n: "\<not> sublist ''base64,'' ''data:image/png,AAAA''"
    by code_simp
  have i: "(''pin'', demo_icon) \<in> set [(''pin'', demo_icon)]"
    by simp
  note t = C10_data_url_without_base64 [OF u p n i, of demo_env]
  have r: "render demo_env (Some demo_style) 400 260
             (options_bounds\<lparr>o_images := Some [(''pin'', demo_icon)]\<rparr>)
       = ([], Inl (ErrorLoadingIconImage ''pin'' TypeError))"
    by code_simp
  from u p n conjunct1 [OF t] conjunct1 [OF conjunct2 [OF t]] r show ?thesis
    by blast
qed

section \<open>The pixel conversion\<close>

lemma js_eq_byte_0: "js_eq (Fin (of_nat (unat (a :: 8 word)))) (Fin 0) \<longleftrightarrow> a = 0"
  by (simp add: js_eq_def unsigned_eq_0_iff)

lemma unpremultiply_at_eq:
  assumes "i + 3 < length b"
  shows "unpremultiply_at A b i =
           b[i := unpremultiplied A (b ! (i + 3)) (b ! i),
             i + 1 := unpremultiplied A (b ! (i + 3)) (b ! (i + 1)),
             i + 2 := unpremultiplied A (b ! (i + 3)) (b ! (i + 2))]"
  using assms js_eq_byte_0 [of "b ! (i + 3)"]
  by (simp add: unpremultiply_at_def px_get_def px_set_def Let_def
      unpremultiplied_def byte_num_def)

lemma unpremultiply_at_nth:
  assumes "i + 3 < length b" and "j < length b"
  shows "unpremultiply_at A b i ! j =
           (if i \<le> j \<and> j < i + 3 then unpremultiplied A (b ! (i + 3)) (b ! j) else b ! j)"
proof -
  consider "j = i" | "j = i + 1" | "j = i + 2" | "j < i \<or> i + 3 \<le> j" by linarith
  then show ?thesis
    using assms by cases (auto simp: unpremultiply_at_eq nth_list_update)
qed

lemma length_unpremultiply_at: "length (unpremultiply_at A b i) = length b"
  by (simp add: unpremultiply_at_def px_set_def Let_def)

lemma toPNG_loop_inv:
  "4 dvd length b \<Longrightarrow> 4 dvd i \<Longrightarrow>
   length (toPNG_loop A i b) = length b
   \<and> (\<forall>j < length b. toPNG_loop A i b ! j = (if j < i then b ! j else converted A b j))"
proof (induction A i b rule: toPNG_loop.induct)
  case (1 A i buffer)
  show ?case
  proof (cases "i < length buffer")
    case False
    then show ?thesis by (simp add: toPNG_loop.simps [of A i buffer])
  next
    case True
    define b' where "b' = unpremultiply_at A buffer i"
    have len: "length b' = length buffer"
      by (simp add: b'_def length_unpremultiply_at)
    from True "1.prems" have i3: "i + 3 < length buffer"
      by (elim dvdE) auto
    have unf: "toPNG_loop A i buffer = toPNG_loop A (i + 4) b'"
      using True by (simp add: toPNG_loop.simps [of A i buffer] b'_def)
    have IH: "length (toPNG_loop A (i + 4) b') = length b'
       \<and> (\<forall>j < length b'. toPNG_loop A (i + 4) b' ! j
             = (if j < i + 4 then b' ! j else converted A b' j))"
      using "1.IH" [OF True] "1.prems" len by (simp add: b'_def)
    have nth: "b' ! j =
        (if i \<le> j \<and> j < i + 3 then unpremultiplied A (buffer ! (i + 3)) (buffer ! j)
         else buffer ! j)" if "j < length buffer" for j
      unfolding b'_def using i3 that by (rule unpremultiply_at_nth)
    have "toPNG_loop A (i + 4) b' ! j = (if j < i then buffer ! j else converted A buffer j)"
      if j: "j < length buffer" for j
    proof -
      from "1.prems"(2) obtain k where k: "i = 4 * k" by (elim dvdE)
      from "1.prems"(1) obtain n where n: "length buffer = 4 * n" by (elim dvdE)
      have step: "toPNG_loop A (i + 4) b' ! j = (if j < i + 4 then b' ! j else converted A b' j)"
        using IH j len by simp
      consider "j < i" | "i \<le> j \<and> j < i + 3" | "j = i + 3" | "i + 4 \<le> j" by linarith
      then show ?thesis
      proof cases
        case 1
        then show ?thesis using step nth [OF j] by simp
      next
        case 2
        then have "j mod 4 \<noteq> 3" and "j - j mod 4 + 3 = i + 3"
          unfolding k by presburger+
        with 2 show ?thesis using step nth [OF j] by (simp add: converted_def)
      next
        case 3
        then have "j mod 4 = 3" unfolding k by presburger
        with 3 show ?thesis using step nth [OF j] by (simp add: converted_def)
      next
        case 4
        have a: "j - j mod 4 + 3 < length buffer" "i + 4 \<le> j - j mod 4 + 3"
          using 4 j unfolding k n by presburger+
        from 4 j have "b' ! j = buffer ! j"
          using nth [OF j] by simp
        moreover have "b' ! (j - j mod 4 + 3) = buffer ! (j - j mod 4 + 3)"
          using nth [OF a(1)] a(2) by simp
        ultimately have "converted A b' j = converted A buffer j"
          by (simp add: converted_def)
        with 4 step show ?thesis by simp
      qed
    qed
    with IH len unf show ?thesis by simp
  qed
qed


text \<open>
  \<open>toPNG\<close> of \<open>render.ts\<close>: for a buffer whose length is a multiple of 4 it hands to the
  PNG encoder the buffer in which every pixel is converted (the alpha byte unchanged, each
  of the R, G and B bytes 0 when the alpha byte is 0 and otherwise the byte divided by
  \<open>alpha / 255\<close>, stored as a byte), with the dimensions \<open>round(width * ratio)\<close> and
  \<open>round(height * ratio)\<close>, where \<open>round\<close> takes a finite \<open>q\<close> to the integer
  \<open>\<lfloor>q + 1/2\<rfloor>\<close>.
\<close>

lemma toPNG_unpremultiplies:
  assumes "4 dvd length buffer"
  shows "toPNG E buffer width height ratio =
           png_encode E
             \<lparr> raw_data = map (converted (ar E) buffer) [0 ..< length buffer],
               raw_width = js_round (fl_mul (ar E) (Fin (of_int width)) ratio),
               raw_height = js_round (fl_mul (ar E) (Fin (of_int height)) ratio) \<rparr>
       \<and> (\<forall>q. js_round (Fin q) = Fin (of_int \<lfloor>q + 1 / 2\<rfloor>))"
proof
  from toPNG_loop_inv [OF assms dvd_0_right, of "ar E"]
  have len: "length (toPNG_loop (ar E) 0 buffer) = length buffer"
    and nth: "\<forall>j < length buffer. toPNG_loop (ar E) 0 buffer ! j = converted (ar E) buffer j"
    by simp_all
  have "toPNG_loop (ar E) 0 buffer = map (converted (ar E) buffer) [0 ..< length buffer]"
    using len nth by (intro nth_equalityI) simp_all
  then show "toPNG E buffer width height ratio =
           png_encode E
             \<lparr> raw_data = map (converted (ar E) buffer) [0 ..< length buffer],
               raw_width = js_round (fl_mul (ar E) (Fin (of_int width)) ratio),
               raw_height = js_round (fl_mul (ar E) (Fin (of_int height)) ratio) \<rparr>"
    by (simp add: toPNG_def)
  show "\<forall>q. js_round (Fin q) = Fin (of_int \<lfloor>q + 1 / 2\<rfloor>)"
    by simp
qed

lemma toPNG_unpremultiplies_example:
  "toPNG (env_pixels enc) [100, 50, 0, 200, 7, 8, 9, 0] 401 261 (Fin (3 / 2))
     = enc \<lparr> raw_data = [127, 63, 0, 200, 0, 0, 0, 0],
             raw_width = Fin 602, raw_height = Fin 392 \<rparr>"
proof -
  have d: "4 dvd length [100, 50, 0, 200, 7, 8, 9, 0 :: 8 word]"
    by code_simp
  have c: "map (converted exact_arith [100, 50, 0, 200, 7, 8, 9, 0]) [0 ..< 8]
       = [127, 63, 0, 200, 0, 0, 0, 0]"
    by code_simp
  have a: "ar (env_pixels enc) = exact_arith" and e: "png_encode (env_pixels enc) = enc"
    by (simp_all add: env_pixels_def demo_env_def)
  have w: "js_round (fl_mul exact_arith (Fin (of_int 401)) (Fin (3 / 2))) = Fin 602"
    "js_round (fl_mul exact_arith (Fin (of_int 261)) (Fin (3 / 2))) = Fin 392"
    by code_simp+
  have l: "length [100, 50, 0, 200, 7, 8, 9, 0 :: 8 word] = 8"
    by simp
  show ?thesis
    using conjunct1 [OF toPNG_unpremultiplies [OF d, of "env_pixels enc" 401 261 "Fin (3 / 2)"]]
    by (simp only: l a e c w)
qed

lemma demo_pixels_converted:
  "map (converted exact_arith [100, 50, 0, 200, 0, 0, 0, 0, 255, 255, 255, 255, 0, 0, 0, 128])
       [0 ..< 16]
     = [127, 63, 0, 200, 0, 0, 0, 0, 255, 255, 255, 255, 0, 0, 0, 128]"
  by code_simp

lemma demo_render_pixels:
  "render (env_pixels enc) (Some demo_style) 1 1 options_ratio =
     ([\<lparr> rc_style = demo_style, rc_zoom = Some (Fin 8), rc_center = Some [Fin 15, Fin 15],
          rc_height = 1, rc_width = 1, rc_bearing = None, rc_pitch = None \<rparr>],
      toPNG (env_pixels enc) [100, 50, 0, 200, 0, 0, 0, 0, 255, 255, 255, 255, 0, 0, 0, 128]
        1 1 (Fin (3 / 2)))"
  by (simp add: render_def render_checks_def options_ratio_def options_bounds_def
      check_center_render_def check_zoom_def check_bearing_def check_pitch_def
      check_bounds_render_def check_padding_def resolve_viewport_def corrected_style_def
      loadImages_def env_pixels_def demo_env_def demo_style_def match_here_def
      exact_arith_def js_max_def Let_def)

text \<open>
  C4. The claim holds of \<open>toPNG\<close>, which \<open>render\<close> of \<open>render.ts\<close> applies to the renderer's
  buffer, and fails of the second \<open>render\<close>, which encodes the renderer's buffer as it is.
  For the request of width 1 and height 1 at ratio 1.5 and the renderer's four pixels
  \<open>[100,50,0,200, 0,0,0,0, 255,255,255,255, 0,0,0,128]\<close>, for every PNG encoder \<open>enc\<close>:
  \<open>render\<close> encodes \<open>[127,63,0,200, 0,0,0,0, 255,255,255,255, 0,0,0,128]\<close>, the conversion
  the claim describes, at the dimensions 2 by 2 (\<open>round(1.5)\<close>); the second \<open>render\<close>
  encodes the unconverted buffer at the same dimensions, so its first pixel keeps the
  premultiplied \<open>100, 50\<close> where the claim requires \<open>127, 63\<close>.
\<close>

theorem C4_second_render_unconverted:
  "render (env_pixels enc) (Some demo_style) 1 1 options_ratio =
     ([\<lparr> rc_style = demo_style, rc_zoom = Some (Fin 8), rc_center = Some [Fin 15, Fin 15],
          rc_height = 1, rc_width = 1, rc_bearing = None, rc_pitch = None \<rparr>],
      enc \<lparr> raw_data = [127, 63, 0, 200, 0, 0, 0, 0, 255, 255, 255, 255, 0, 0, 0, 128],
            raw_width = Fin 2, raw_height = Fin 2 \<rparr>)
   \<and> render_second (env_pixels enc) (Some demo_style) 1 1 options_ratio =
     ([\<lparr> rc_style = demo_style, rc_zoom = Some (Fin 8), rc_center = Some [Fin 15, Fin 15],
          rc_height = 1, rc_width = 1, rc_bearing = None, rc_pitch = None \<rparr>],
      enc \<lparr> raw_data = [100, 50, 0, 200, 0, 0, 0, 0, 255, 255, 255, 255, 0, 0, 0, 128],
            raw_width = Fin 2, raw_height = Fin 2 \<rparr>)
   \<and> map (converted exact_arith [100, 50, 0, 200, 0, 0, 0, 0, 255, 255, 255, 255, 0, 0, 0, 128])
         [0 ..< 16]
       = [127, 63, 0, 200, 0, 0, 0, 0, 255, 255, 255, 255, 0, 0, 0, 128]
   \<and> [100, 50, 0, 200, 0, 0, 0, 0, 255, 255, 255, 255, 0, 0, 0, 128 :: 8 word]
       \<noteq> [127, 63, 0, 200, 0, 0, 0, 0, 255, 255, 255, 255, 0, 0, 0, 128]"
proof (intro conjI)
  have d: "4 dvd length [100, 50, 0, 200, 0, 0, 0, 0, 255, 255, 255, 255, 0, 0, 0, 128 :: 8 word]"
    by code_simp
  have l: "length [100, 50, 0, 200, 0, 0, 0, 0, 255, 255, 255, 255, 0, 0, 0, 128 :: 8 word] = 16"
    by simp
  have a: "ar (env_pixels enc) = exact_arith" and e: "png_encode (env_pixels enc) = enc"
    by (simp_all add: env_pixels_def demo_env_def)
  have w: "js_round (fl_mul exact_arith (Fin (of_int 1)) (Fin (3 / 2))) = Fin 2"
    by code_simp
  have "toPNG (env_pixels enc) [100, 50, 0, 200, 0, 0, 0, 0, 255, 255, 255, 255, 0, 0, 0, 128]
          1 1 (Fin (3 / 2))
        = enc \<lparr> raw_data = [127, 63, 0, 200, 0, 0, 0, 0, 255, 255, 255, 255, 0, 0, 0, 128],
                raw_width = Fin 2, raw_height = Fin 2 \<rparr>"
    using conjunct1 [OF toPNG_unpremultiplies [OF d, of "env_pixels enc" 1 1 "Fin (3 / 2)"]]
    by (simp only: l a e demo_pixels_converted w)
  then show "render (env_pixels enc) (Some demo_style) 1 1 options_ratio =
     ([\<lparr> rc_style = demo_style, rc_zoom = Some (Fin 8), rc_center = Some [Fin 15, Fin 15],
          rc_height = 1, rc_width = 1, rc_bearing = None, rc_pitch = None \<rparr>],
      enc \<lparr> raw_data = [127, 63, 0, 200, 0, 0, 0, 0, 255, 255, 255, 255, 0, 0, 0, 128],
            raw_width = Fin 2, raw_height = Fin 2 \<rparr>)"
    by (simp only: demo_render_pixels)
  have "encode_unconverted (env_pixels enc)
          [100, 50, 0, 200, 0, 0, 0, 0, 255, 255, 255, 255, 0, 0, 0, 128] 1 1 (Fin (3 / 2))
        = enc \<lparr> raw_data = [100, 50, 0, 200, 0, 0, 0, 0, 255, 255, 255, 255, 0, 0, 0, 128],
                raw_width = Fin 2, raw_height = Fin 2 \<rparr>"
    unfolding encode_unconverted_def by (simp only: a e w)
  moreover have "render_second (env_pixels enc) (Some demo_style) 1 1 options_ratio =
     ([\<lparr> rc_style = demo_style, rc_zoom = Some (Fin 8), rc_center = Some [Fin 15, Fin 15],
          rc_height = 1, rc_width = 1, rc_bearing = None, rc_pitch = None \<rparr>],
      encode_unconverted (env_pixels enc)
        [100, 50, 0, 200, 0, 0, 0, 0, 255, 255, 255, 255, 0, 0, 0, 128] 1 1 (Fin (3 / 2)))"
    by (simp add: render_second_def render_checks_def options_ratio_def options_bounds_def
        check_center_render_def check_zoom_def check_bearing_def check_pitch_def
        check_bounds_render_def check_padding_def resolve_viewport_def corrected_style_def
        loadImages_second_def env_pixels_def demo_env_def demo_style_def match_here_def
        exact_arith_def js_max_def Let_def)
  ultimately show "render_second (env_pixels enc) (Some demo_style) 1 1 options_ratio =
     ([\<lparr> rc_style = demo_style, rc_zoom = Some (Fin 8), rc_center = Some [Fin 15, Fin 15],
          rc_height = 1, rc_width = 1, rc_bearing = None, rc_pitch = None \<rparr>],
      enc \<lparr> raw_data = [100, 50, 0, 200, 0, 0, 0, 0, 255, 255, 255, 255, 0, 0, 0, 128],
            raw_width = Fin 2, raw_height = Fin 2 \<rparr>)"
    by (simp only:)
  show "map (converted exact_arith
               [100, 50, 0, 200, 0, 0, 0, 0, 255, 255, 255, 255, 0, 0, 0, 128]) [0 ..< 16]
       = [127, 63, 0, 200, 0, 0, 0, 0, 255, 255, 255, 255, 0, 0, 0, 128]"
    by (rule demo_pixels_converted)
  show "[100, 50, 0, 200, 0, 0, 0, 0, 255, 255, 255, 255, 0, 0, 0, 128 :: 8 word]
       \<noteq> [127, 63, 0, 200, 0, 0, 0, 0, 255, 255, 255, 255, 0, 0, 0, 128]"
    by simp
qed

end
